theory Spec2Isabelle
  imports Main "HOL-Library.Char_ord" "HOL-Library.List_Lexorder" "HOL-Library.Product_Lexorder"
    "HOL-Library.Sublist"
begin

section \<open>Strings\<close>

text \<open>
  A JavaScript string is modelled as the list of its code units; Isabelle's \<open>char\<close> holds
  the code units below 256, which is the range this development covers.
\<close>

definition js_spaces :: "char list" where
  "js_spaces = [CHR 0x09, CHR 0x0A, CHR 0x0B, CHR 0x0C, CHR 0x0D, CHR 0x20, CHR 0xA0]"

definition is_js_space :: "char \<Rightarrow> bool" where
  "is_js_space c = (c \<in> set js_spaces)"

text \<open>\<open>String.prototype.trim\<close>: white space is removed at both ends.\<close>

definition trim :: "string \<Rightarrow> string" where
  "trim s = rev (dropWhile is_js_space (rev (dropWhile is_js_space s)))"

text \<open>\<open>Array.prototype.join\<close>.\<close>

fun join :: "string \<Rightarrow> string list \<Rightarrow> string" where
  "join sep [] = []"
| "join sep [x] = x"
| "join sep (x # y # ys) = x @ sep @ join sep (y # ys)"

text \<open>\<open>xs.slice(-n)\<close>: the last \<open>n\<close> elements, all of them when there are fewer.\<close>

definition slice_last :: "nat \<Rightarrow> 'a list \<Rightarrow> 'a list" where
  "slice_last n xs = drop (length xs - n) xs"

text \<open>The decimal digits of a number, as \<open>String(n)\<close> and Python's \<open>str(n)\<close> print it.\<close>

definition digit_char :: "nat \<Rightarrow> char" where
  "digit_char d = char_of (48 + d)"

function string_of_nat :: "nat \<Rightarrow> string" where
  "string_of_nat n =
     (if n < 10 then [digit_char n] else string_of_nat (n div 10) @ [digit_char (n mod 10)])"
  by pat_completeness auto
termination
  by (relation "measure id") auto

declare string_of_nat.simps [simp del]

text \<open>
  A JavaScript \<open>Set\<close> of strings iterates in insertion order; it is modelled by the list of
  its elements in that order, and \<open>add\<close> of an element already present changes nothing.
\<close>

definition set_add :: "'a list \<Rightarrow> 'a \<Rightarrow> 'a list" where
  "set_add out v = (if v \<in> set out then out else out @ [v])"

section \<open>TxEngine: package sanitization\<close>

text \<open>The character class \<open>[A-Za-z0-9_.\-<>=!~\[\],:@+/ ]\<close> of \<open>sanitizePackages\<close>.\<close>

definition spec_char :: "char \<Rightarrow> bool" where
  "spec_char c =
     (let n = (of_char c :: nat) in
        (65 \<le> n \<and> n \<le> 90) \<or> (97 \<le> n \<and> n \<le> 122) \<or> (48 \<le> n \<and> n \<le> 57) \<or>
        c \<in> set ''_.-<>=!~[],:@+/ '')"

text \<open>The test \<open>/^[...]+$/.test(value)\<close>: one character at least, all of them in the class.\<close>

definition spec_regex_test :: "string \<Rightarrow> bool" where
  "spec_regex_test v = (v \<noteq> [] \<and> list_all spec_char v)"

text \<open>
  The loop of \<open>sanitizePackages\<close> over the items of the array, with the set \<open>out\<close> as its
  state. The items are strings, for which \<open>String(item || '')\<close> is the item itself.
\<close>

fun sanitize_loop :: "string list \<Rightarrow> string list \<Rightarrow> string list" where
  "sanitize_loop out [] = out"
| "sanitize_loop out (item # rest) =
     (let v = trim item in
        if v = [] then sanitize_loop out rest
        else if \<not> spec_regex_test v then sanitize_loop out rest
        else sanitize_loop (set_add out v) rest)"

text \<open>\<open>sanitizePackages\<close>: \<open>None\<close> is an input that is not an array.\<close>

definition sanitizePackages :: "string list option \<Rightarrow> string list" where
  "sanitizePackages input = (case input of None \<Rightarrow> [] | Some items \<Rightarrow> sanitize_loop [] items)"

text \<open>The first occurrences of the elements of a list, in order.\<close>

definition first_occurrences :: "'a list \<Rightarrow> 'a list" where
  "first_occurrences xs = rev (remdups (rev xs))"

text \<open>
  The sanitization as the specification words it: the specifiers with a character outside
  the class are dropped, duplicates are removed, the order is kept.
\<close>

definition spec_sanitize :: "string list \<Rightarrow> string list" where
  "spec_sanitize items = first_occurrences (filter (list_all spec_char) items)"

lemma first_occurrences_snoc:
  "first_occurrences (xs @ [x]) = set_add (first_occurrences xs) x"
  by (simp add: first_occurrences_def set_add_def)

lemma first_occurrences_distinct: "distinct xs \<Longrightarrow> first_occurrences xs = xs"
  by (simp add: first_occurrences_def distinct_remdups_id)

lemma distinct_first_occurrences: "distinct (first_occurrences xs)"
  by (simp add: first_occurrences_def)

lemma set_first_occurrences: "set (first_occurrences xs) = set xs"
  by (simp add: first_occurrences_def)

lemma remdups_later: "x \<in> set bs \<Longrightarrow> remdups (as @ x # bs) = remdups (as @ bs)"
  by (induction as) auto

lemma first_occurrences_seen:
  "x \<in> set ys \<Longrightarrow> first_occurrences (ys @ x # zs) = first_occurrences (ys @ zs)"
  by (simp add: first_occurrences_def remdups_later)

lemma sanitize_loop_append:
  "distinct out \<Longrightarrow>
   sanitize_loop out items =
     first_occurrences (out @ filter spec_regex_test (map trim items))"
proof (induction items arbitrary: out)
  case Nil
  then show ?case by (simp add: first_occurrences_distinct)
next
  case (Cons item rest)
  show ?case
  proof (cases "spec_regex_test (trim item)")
    case False
    then show ?thesis using Cons by (auto simp: Let_def spec_regex_test_def)
  next
    case True
    then have ne: "trim item \<noteq> []" by (simp add: spec_regex_test_def)
    have d: "distinct (set_add out (trim item))"
      using Cons.prems by (simp add: set_add_def)
    have "sanitize_loop out (item # rest) = sanitize_loop (set_add out (trim item)) rest"
      using True ne by (simp add: Let_def)
    also have "\<dots> = first_occurrences (set_add out (trim item) @ filter spec_regex_test (map trim rest))"
      by (rule Cons.IH [OF d])
    also have "\<dots> = first_occurrences (out @ filter spec_regex_test (map trim (item # rest)))"
      using True by (simp add: set_add_def first_occurrences_seen)
    finally show ?thesis .
  qed
qed

lemma sanitizePackages_char:
  "sanitizePackages (Some items) = first_occurrences (filter spec_regex_test (map trim items))"
  using sanitize_loop_append [of "[]" items] by (simp add: sanitizePackages_def)

section \<open>TxEngine: data model\<close>

datatype EnvTxStatus = Planned | Running | Succeeded | Failed | Rolled_back

datatype EnvTxKind = Repair | Install

text \<open>The string literals of the union types \<open>EnvTxStatus\<close> and \<open>EnvTxKind\<close>.\<close>

fun status_text :: "EnvTxStatus \<Rightarrow> string" where
  "status_text Planned = ''planned''"
| "status_text Running = ''running''"
| "status_text Succeeded = ''succeeded''"
| "status_text Failed = ''failed''"
| "status_text Rolled_back = ''rolled_back''"

fun kind_text :: "EnvTxKind \<Rightarrow> string" where
  "kind_text Repair = ''repair''"
| "kind_text Install = ''install''"

record EnvStep =
  step_id :: string
  command :: string
  ok :: bool
  exit_status :: int
  step_output :: string
  startedAt :: string
  finishedAt :: string

text \<open>
  An optional or nullable field is an \<open>option\<close>: \<open>None\<close> is \<open>undefined\<close> or \<open>null\<close>.
\<close>

record EnvTx =
  tx_id :: string
  kind :: EnvTxKind
  status :: EnvTxStatus
  createdAt :: string
  updatedAt :: string
  requestedPackages :: "string list"
  planCommands :: "string list"
  steps :: "EnvStep list"
  pipCheckOutput :: "string option"
  pipHealthy :: "bool option"
  rollbackOf :: "string option"
  snapshotBefore :: "string option"
  snapshotAfter :: "string option"
  error :: "string option"

definition MAX_TX :: nat where
  "MAX_TX = 200"

definition MAX_OUTPUT :: nat where
  "MAX_OUTPUT = 12000"

section \<open>TxEngine: the world the engine runs in\<close>

text \<open>
  A file holds the JSON text of a store \<open>{transactions: [...]}\<close>, or any other text;
  \<open>JSON.parse\<close> of \<open>JSON.stringify\<close> of a store gives the store back.
\<close>

datatype fileContent = StoreJson "EnvTx list" | Text string

text \<open>
  The calls of \<open>node:fs\<close> that change the disk. The engine calls \<open>mkdirSync\<close> and
  \<open>writeFileSync\<close>; \<open>Rename\<close> stands for \<open>renameSync\<close>, which the specification names.
\<close>

datatype fsop = Mkdir string | WriteFile string fileContent | Rename string string

text \<open>
  The world: the backend directory \<open>resolveBackendDir()\<close> answers, the files on disk, the
  log of the calls that changed the disk, and the sources of what the engine cannot
  compute: \<open>randomUUID()\<close>, the clock of \<open>nowIso()\<close> and the outcome of every process
  \<open>spawnSync\<close> starts (its exit status, \<open>None\<close> for \<open>null\<close>, and its stdout followed
  by its stderr). Each draw from a source is numbered by \<open>tick\<close>.
\<close>

record world =
  backendDir :: string
  files :: "string \<Rightarrow> fileContent option"
  fslog :: "fsop list"
  tick :: nat
  uuidAt :: "nat \<Rightarrow> string"
  timeAt :: "nat \<Rightarrow> string"
  procAt :: "nat \<Rightarrow> string list \<Rightarrow> int option \<times> string"

definition path_join :: "string \<Rightarrow> string \<Rightarrow> string" where
  "path_join a b = a @ ''/'' @ b"

definition envRoot :: "world \<Rightarrow> string" where
  "envRoot w = path_join (path_join (backendDir w) ''user'') ''modusnap_manager_env''"

definition txStorePath :: "world \<Rightarrow> string" where
  "txStorePath w = path_join (envRoot w) ''transactions.json''"

definition snapshotsDir :: "world \<Rightarrow> string" where
  "snapshotsDir w = path_join (envRoot w) ''snapshots''"

definition ensureDirs :: "world \<Rightarrow> world" where
  "ensureDirs w = w\<lparr>fslog := fslog w @ [Mkdir (envRoot w), Mkdir (snapshotsDir w)]\<rparr>"

text \<open>\<open>readStore\<close>: a missing file, and a file that does not parse to a store, read as empty.\<close>

definition readStore :: "world \<Rightarrow> EnvTx list \<times> world" where
  "readStore w =
     (let w1 = ensureDirs w in
        (case files w1 (txStorePath w1) of
           None \<Rightarrow> ([], w1)
         | Some (StoreJson txs) \<Rightarrow> (txs, w1)
         | Some (Text t) \<Rightarrow> ([], w1)))"

definition writeStore :: "world \<Rightarrow> EnvTx list \<Rightarrow> world" where
  "writeStore w store =
     (let w1 = ensureDirs w;
          trimmed = slice_last MAX_TX store in
        w1\<lparr>files := (files w1)(txStorePath w1 \<mapsto> StoreJson trimmed),
           fslog := fslog w1 @ [WriteFile (txStorePath w1) (StoreJson trimmed)]\<rparr>)"

definition nowIso :: "world \<Rightarrow> string \<times> world" where
  "nowIso w = (timeAt w (tick w), w\<lparr>tick := Suc (tick w)\<rparr>)"

definition randomUUID :: "world \<Rightarrow> string \<times> world" where
  "randomUUID w = (uuidAt w (tick w), w\<lparr>tick := Suc (tick w)\<rparr>)"

definition spawnSync :: "world \<Rightarrow> string list \<Rightarrow> (int option \<times> string) \<times> world" where
  "spawnSync w args = (procAt w (tick w) args, w\<lparr>tick := Suc (tick w)\<rparr>)"

definition venvPythonPath :: "string \<Rightarrow> string" where
  "venvPythonPath dir = path_join (path_join (path_join dir ''venv'') ''bin'') ''python''"

definition runPython :: "world \<Rightarrow> string list \<Rightarrow> EnvStep \<times> world" where
  "runPython w args =
     (let (started, w1) = nowIso w;
          python = venvPythonPath (backendDir w1) in
        if files w1 python = None then
          (let (finished, w2) = nowIso w1;
               (uid, w3) = randomUUID w2 in
             (\<lparr>step_id = uid, command = ''python '' @ join '' '' args, ok = False,
               exit_status = 1, step_output = ''backend-comfyui/venv missing'',
               startedAt = started, finishedAt = finished\<rparr>, w3))
        else
          (let (proc, w2) = spawnSync w1 args;
               (finished, w3) = nowIso w2;
               out = trim (snd proc);
               (uid, w4) = randomUUID w3 in
             (\<lparr>step_id = uid, command = python @ '' '' @ join '' '' args,
               ok = (fst proc = Some 0),
               exit_status = (case fst proc of None \<Rightarrow> 1 | Some st \<Rightarrow> st),
               step_output = take MAX_OUTPUT (if out = [] then ''(no output)'' else out),
               startedAt = started, finishedAt = finished\<rparr>, w4)))"

definition writeFreezeSnapshot :: "world \<Rightarrow> string \<Rightarrow> string option \<times> world" where
  "writeFreezeSnapshot w tag =
     (let (freezeStep, w1) = runPython w [''-m'', ''pip'', ''freeze''] in
        if \<not> ok freezeStep then (None, w1)
        else
          (let file = path_join (snapshotsDir w1) (tag @ ''.txt'') in
             (Some file,
              w1\<lparr>files := (files w1)(file \<mapsto> Text (step_output freezeStep)),
                 fslog := fslog w1 @ [WriteFile file (Text (step_output freezeStep))]\<rparr>)))"

text \<open>\<open>findIndex\<close>: the index of the first element that satisfies the test.\<close>

fun findIndex :: "('a \<Rightarrow> bool) \<Rightarrow> 'a list \<Rightarrow> nat option" where
  "findIndex P [] = None"
| "findIndex P (x # xs) =
     (if P x then Some 0 else (case findIndex P xs of None \<Rightarrow> None | Some i \<Rightarrow> Some (Suc i)))"

definition findTx :: "world \<Rightarrow> string \<Rightarrow> (EnvTx list \<times> (EnvTx \<times> nat) option) \<times> world" where
  "findTx w i =
     (let (store, w1) = readStore w in
        (case findIndex (\<lambda>tx. tx_id tx = i) store of
           None \<Rightarrow> ((store, None), w1)
         | Some index \<Rightarrow> ((store, Some (store ! index, index)), w1)))"

definition buildPlan :: "EnvTxKind \<Rightarrow> string list \<Rightarrow> string list" where
  "buildPlan k pkgs =
     [''python -m pip install -r requirements.txt'',
      ''python -m pip install -r manager_requirements.txt'']
     @ (if k = Install \<and> pkgs \<noteq> [] then [''python -m pip install '' @ join '' '' pkgs] else [])
     @ [''python -m pip check'']"

section \<open>TxEngine: operations\<close>

record planInput =
  mode :: "string option"
  packages :: "string list option"

definition createPlan :: "world \<Rightarrow> planInput \<Rightarrow> EnvTx \<times> world" where
  "createPlan w input =
     (let m = (if mode input = Some ''install'' then Install else Repair);
          pkgs = sanitizePackages (packages input);
          (uid, w1) = randomUUID w;
          (created, w2) = nowIso w1;
          (updated, w3) = nowIso w2;
          tx = \<lparr>tx_id = uid, kind = m, status = Planned, createdAt = created,
                 updatedAt = updated, requestedPackages = pkgs,
                 planCommands = buildPlan m pkgs, steps = [], pipCheckOutput = None,
                 pipHealthy = None, rollbackOf = None, snapshotBefore = None,
                 snapshotAfter = None, error = None\<rparr>;
          (store, w4) = readStore w3 in
        (tx, writeStore w4 (store @ [tx])))"

text \<open>The answers of \<open>applyTransaction\<close> and \<open>rollbackTransaction\<close>:
  \<open>{ok: false, status, error}\<close> or \<open>{ok: true, status: 200, transaction}\<close>.\<close>

datatype response = Failure nat string | Success EnvTx

definition applyTransaction :: "world \<Rightarrow> string \<Rightarrow> response \<times> world" where
  "applyTransaction w i =
     (let ((store, found), w1) = findTx w i in
        (case found of
           None \<Rightarrow> (Failure 404 ''Transaction not found.'', w1)
         | Some (tx, index) \<Rightarrow>
             if \<not> (status tx = Planned \<or> status tx = Failed) then
               (Failure 409 (''Transaction is '' @ status_text (status tx)
                              @ ''; only planned/failed can be applied.''), w1)
             else
               (let (t1, w2) = nowIso w1;
                    (before, w3) = writeFreezeSnapshot w2 (tx_id tx @ ''-before'');
                    tx1 = tx\<lparr>status := Running, updatedAt := t1, error := None,
                             snapshotBefore := before\<rparr>;
                    store1 = store[index := tx1];
                    w4 = writeStore w3 store1;
                    (s1, w5) = runPython w4 [''-m'', ''pip'', ''install'', ''-r'', ''requirements.txt''];
                    (s2, w6) = runPython w5
                                 [''-m'', ''pip'', ''install'', ''-r'', ''manager_requirements.txt''];
                    (s3, w7) = (if kind tx1 = Install \<and> requestedPackages tx1 \<noteq> []
                                then (let (s, w') = runPython w6
                                            ([''-m'', ''pip'', ''install''] @ requestedPackages tx1)
                                      in ([s], w'))
                                else ([], w6));
                    (pipCheck, w8) = runPython w7 [''-m'', ''pip'', ''check''];
                    (after, w9) = writeFreezeSnapshot w8 (tx_id tx1 @ ''-after'');
                    (t2, w10) = nowIso w9;
                    tx2 = tx1\<lparr>steps := steps tx1 @ ([s1, s2] @ s3 @ [pipCheck]),
                              pipHealthy := Some (ok pipCheck),
                              pipCheckOutput := Some (step_output pipCheck),
                              snapshotAfter := after,
                              status := (if ok pipCheck then Succeeded else Failed),
                              error := (if ok pipCheck then None
                                        else Some ''pip check reported conflicts after apply.''),
                              updatedAt := t2\<rparr>;
                    store2 = store1[index := tx2] in
                  (Success tx2, writeStore w10 store2))))"

text \<open>\<open>fs.existsSync\<close> on the path of a snapshot.\<close>

definition existsSync :: "world \<Rightarrow> string \<Rightarrow> bool" where
  "existsSync w p = (files w p \<noteq> None)"

definition rollbackTransaction :: "world \<Rightarrow> string \<Rightarrow> response \<times> world" where
  "rollbackTransaction w i =
     (let ((store, found), w1) = findTx w i in
        (case found of
           None \<Rightarrow> (Failure 404 ''Transaction not found.'', w1)
         | Some (tx, index) \<Rightarrow>
             (case snapshotBefore tx of
                None \<Rightarrow> (Failure 409 ''No pre-apply snapshot found for this transaction.'', w1)
              | Some snap \<Rightarrow>
                  if snap = [] \<or> \<not> existsSync w1 snap then
                    (Failure 409 ''No pre-apply snapshot found for this transaction.'', w1)
                  else
                    (let (uid, w2) = randomUUID w1;
                         (created, w3) = nowIso w2;
                         (updated, w4) = nowIso w3;
                         rollbackTx = \<lparr>tx_id = uid, kind = Repair, status = Running,
                                        createdAt = created, updatedAt = updated,
                                        requestedPackages = [],
                                        planCommands =
                                          [''python -m pip install -r <snapshot-before>'',
                                           ''python -m pip check''],
                                        steps = [], pipCheckOutput = None, pipHealthy = None,
                                        rollbackOf = Some (tx_id tx),
                                        snapshotBefore = Some snap, snapshotAfter = None,
                                        error = None\<rparr>;
                         (install, w5) = runPython w4 [''-m'', ''pip'', ''install'', ''-r'', snap];
                         (check, w6) = runPython w5 [''-m'', ''pip'', ''check''];
                         (after, w7) = writeFreezeSnapshot w6 (tx_id rollbackTx @ ''-after'');
                         (t2, w8) = nowIso w7;
                         rollbackTx2 = rollbackTx\<lparr>steps := steps rollbackTx @ [install, check],
                                         pipHealthy := Some (ok check),
                                         pipCheckOutput := Some (step_output check),
                                         snapshotAfter := after,
                                         status := (if ok check then Rolled_back else Failed),
                                         error := (if ok check then None
                                                   else Some ''Rollback completed but pip check still reports conflicts.''),
                                         updatedAt := t2\<rparr> in
                       (Success rollbackTx2, writeStore w8 (store @ [rollbackTx2]))))))"

section \<open>TxEngine: what the primitives change\<close>

text \<open>The transactions a reader finds on disk.\<close>

definition persisted :: "world \<Rightarrow> EnvTx list" where
  "persisted w = fst (readStore w)"

lemma persisted_files:
  "persisted w = (case files w (txStorePath w) of Some (StoreJson txs) \<Rightarrow> txs | _ \<Rightarrow> [])"
  by (simp add: persisted_def readStore_def ensureDirs_def Let_def txStorePath_def envRoot_def
      split: option.splits fileContent.splits)

lemma snd_readStore: "snd (readStore w) = ensureDirs w"
  by (simp add: readStore_def Let_def split: option.splits fileContent.splits)

lemma readStore_eq: "readStore w = (persisted w, ensureDirs w)"
  by (simp add: persisted_def snd_readStore [symmetric])

lemma ensureDirs_fields:
  "backendDir (ensureDirs w) = backendDir w"
  "files (ensureDirs w) = files w"
  "tick (ensureDirs w) = tick w"
  "uuidAt (ensureDirs w) = uuidAt w"
  "timeAt (ensureDirs w) = timeAt w"
  "procAt (ensureDirs w) = procAt w"
  "fslog (ensureDirs w) = fslog w @ [Mkdir (envRoot w), Mkdir (snapshotsDir w)]"
  by (simp_all add: ensureDirs_def)

lemma paths_ensureDirs:
  "txStorePath (ensureDirs w) = txStorePath w"
  "envRoot (ensureDirs w) = envRoot w"
  "snapshotsDir (ensureDirs w) = snapshotsDir w"
  by (simp_all add: txStorePath_def envRoot_def snapshotsDir_def ensureDirs_fields)

lemma nowIso_fields:
  "backendDir (snd (nowIso w)) = backendDir w"
  "files (snd (nowIso w)) = files w"
  "fslog (snd (nowIso w)) = fslog w"
  "tick (snd (nowIso w)) = Suc (tick w)"
  by (simp_all add: nowIso_def)

lemma randomUUID_fields:
  "backendDir (snd (randomUUID w)) = backendDir w"
  "files (snd (randomUUID w)) = files w"
  "fslog (snd (randomUUID w)) = fslog w"
  "tick (snd (randomUUID w)) = Suc (tick w)"
  by (simp_all add: randomUUID_def)

lemma spawnSync_fields:
  "backendDir (snd (spawnSync w args)) = backendDir w"
  "files (snd (spawnSync w args)) = files w"
  "fslog (snd (spawnSync w args)) = fslog w"
  "tick (snd (spawnSync w args)) = Suc (tick w)"
  by (simp_all add: spawnSync_def)

lemma runPython_fields:
  "backendDir (snd (runPython w args)) = backendDir w"
  "files (snd (runPython w args)) = files w"
  "fslog (snd (runPython w args)) = fslog w"
  by (simp_all add: runPython_def Let_def split_def nowIso_fields randomUUID_fields
      spawnSync_fields)

lemma writeStore_fields:
  "backendDir (writeStore w store) = backendDir w"
  "files (writeStore w store) = (files w)(txStorePath w \<mapsto> StoreJson (slice_last MAX_TX store))"
  "tick (writeStore w store) = tick w"
  "fslog (writeStore w store) =
     fslog w @ [Mkdir (envRoot w), Mkdir (snapshotsDir w),
                WriteFile (txStorePath w) (StoreJson (slice_last MAX_TX store))]"
  by (simp_all add: writeStore_def Let_def ensureDirs_fields paths_ensureDirs)

lemma persisted_writeStore: "persisted (writeStore w store) = slice_last MAX_TX store"
  by (simp add: persisted_files writeStore_fields txStorePath_def envRoot_def)

lemma persisted_cong:
  "backendDir w' = backendDir w \<Longrightarrow> files w' = files w \<Longrightarrow> persisted w' = persisted w"
  by (simp add: persisted_files txStorePath_def envRoot_def)

lemma txStorePath_cong: "backendDir w' = backendDir w \<Longrightarrow> txStorePath w' = txStorePath w"
  by (simp add: txStorePath_def envRoot_def)

lemma slice_last_slice_last:
  "slice_last n (slice_last n xs @ ys) = slice_last n (xs @ ys)"
proof (cases "length xs \<le> n")
  case True
  then show ?thesis by (simp add: slice_last_def)
next
  case False
  then show ?thesis by (simp add: slice_last_def add.commute)
qed

lemma length_slice_last: "length (slice_last n xs) = min (length xs) n"
  by (simp add: slice_last_def)

section \<open>TxEngine: createPlan\<close>

lemma createPlan_requestedPackages:
  "requestedPackages (fst (createPlan w input)) = sanitizePackages (packages input)"
  by (simp add: createPlan_def Let_def split_def)

lemma createPlan_world:
  "backendDir (snd (createPlan w input)) = backendDir w"
  "persisted (snd (createPlan w input)) = slice_last MAX_TX (persisted w @ [fst (createPlan w input)])"
proof -
  let ?w3 = "snd (nowIso (snd (nowIso (snd (randomUUID w)))))"
  have b: "backendDir ?w3 = backendDir w" and f: "files ?w3 = files w"
    by (simp_all add: nowIso_fields randomUUID_fields)
  have p: "persisted ?w3 = persisted w" by (rule persisted_cong [OF b f])
  show "backendDir (snd (createPlan w input)) = backendDir w"
    by (simp add: createPlan_def Let_def split_def readStore_eq writeStore_fields
        ensureDirs_fields b)
  show "persisted (snd (createPlan w input)) =
          slice_last MAX_TX (persisted w @ [fst (createPlan w input)])"
    by (simp add: createPlan_def Let_def split_def readStore_eq persisted_writeStore p)
qed

text \<open>
  A world for the examples: nothing on disk, so that the interpreter of the virtual
  environment is missing too.
\<close>

definition demo_world :: world where
  "demo_world =
     \<lparr>backendDir = ''/srv/backend-comfyui'', files = Map.empty, fslog = [], tick = 0,
      uuidAt = (\<lambda>n. ''uuid-'' @ string_of_nat n), timeAt = (\<lambda>n. ''t'' @ string_of_nat n),
      procAt = (\<lambda>n args. (Some 0, ''ok''))\<rparr>"

definition e2_input :: planInput where
  "e2_input = \<lparr>mode = Some ''install'', packages = Some [''torch==2.4'', ''rm -rf /'', ''pillow'']\<rparr>"

lemma e2_sanitized:
  "sanitizePackages (Some [''torch==2.4'', ''rm -rf /'', ''pillow''])
     = [''torch==2.4'', ''rm -rf /'', ''pillow'']"
  by code_simp

lemma newline_sanitized:
  "sanitizePackages (Some [''pillow'' @ [CHR 0x0A]]) = [''pillow'']"
  by code_simp

text \<open>
  C1, as stated, fails twice. In the scenario E2 every character of \<open>rm -rf /\<close> (letters, the
  space, the hyphen and the slash) is in the class, so the plan records all three
  specifiers and not the two the claim names. And an element is trimmed before it is
  tested: \<open>pillow\<close> followed by a line feed has a character outside the class, yet it is
  recorded, as \<open>pillow\<close>, where the sanitization in the specification's words drops it.
\<close>

theorem createPlan_e2_counterexample:
  "requestedPackages (fst (createPlan demo_world e2_input)) \<noteq> [''torch==2.4'', ''pillow'']
   \<and> spec_regex_test ''rm -rf /''
   \<and> \<not> list_all spec_char (''pillow'' @ [CHR 0x0A])
   \<and> requestedPackages (fst (createPlan demo_world
          \<lparr>mode = Some ''install'', packages = Some [''pillow'' @ [CHR 0x0A]]\<rparr>)) = [''pillow'']
   \<and> spec_sanitize [''pillow'' @ [CHR 0x0A]] = []"
proof -
  have a: "requestedPackages (fst (createPlan demo_world e2_input))
             = [''torch==2.4'', ''rm -rf /'', ''pillow'']"
    by (simp add: createPlan_requestedPackages e2_input_def e2_sanitized)
  have b: "spec_regex_test ''rm -rf /''" by code_simp
  have c: "\<not> list_all spec_char (''pillow'' @ [CHR 0x0A])" by code_simp
  have d: "requestedPackages (fst (createPlan demo_world
          \<lparr>mode = Some ''install'', packages = Some [''pillow'' @ [CHR 0x0A]]\<rparr>)) = [''pillow'']"
    by (simp only: createPlan_requestedPackages planInput.simps newline_sanitized)
  have e: "spec_sanitize [''pillow'' @ [CHR 0x0A]] = []" by code_simp
  from a b c d e show ?thesis by simp
qed

text \<open>
  C1, amended: \<open>createPlan\<close> records the requested packages sanitized. Each element is
  trimmed of white space at both ends; an element whose trimmed text is empty or has a
  character outside the class is dropped; of the trimmed texts that remain the first
  occurrence of each is kept, in the order of the input. For the packages of E2 the plan
  records \<open>torch==2.4\<close>, \<open>rm -rf /\<close> and \<open>pillow\<close>.
\<close>

theorem createPlan_sanitizes:
  "requestedPackages (fst (createPlan w \<lparr>mode = m, packages = Some items\<rparr>))
     = first_occurrences (filter spec_regex_test (map trim items))
   \<and> distinct (requestedPackages (fst (createPlan w \<lparr>mode = m, packages = Some items\<rparr>)))
   \<and> requestedPackages (fst (createPlan w e2_input)) = [''torch==2.4'', ''rm -rf /'', ''pillow'']"
proof -
  let ?tx = "fst (createPlan w \<lparr>mode = m, packages = Some items\<rparr>)"
  have a: "requestedPackages ?tx = first_occurrences (filter spec_regex_test (map trim items))"
    by (simp only: createPlan_requestedPackages planInput.simps sanitizePackages_char)
  have b: "distinct (requestedPackages ?tx)"
    by (simp only: a distinct_first_occurrences)
  have c: "requestedPackages (fst (createPlan w e2_input))
             = [''torch==2.4'', ''rm -rf /'', ''pillow'']"
    by (simp only: createPlan_requestedPackages e2_input_def planInput.simps e2_sanitized)
  from a b c show ?thesis by blast
qed

section \<open>TxEngine: the bound of the store\<close>

text \<open>A sequence of calls of \<open>createPlan\<close>, one per input, with the transactions they return.\<close>

fun createPlans :: "world \<Rightarrow> planInput list \<Rightarrow> EnvTx list \<times> world" where
  "createPlans w [] = ([], w)"
| "createPlans w (i # rest) =
     (let (tx, w1) = createPlan w i;
          (txs, w2) = createPlans w1 rest in
        (tx # txs, w2))"

lemma length_createPlans: "length (fst (createPlans w ins)) = length ins"
  by (induction ins arbitrary: w) (simp_all add: split_def Let_def)

lemma persisted_createPlans:
  "ins \<noteq> [] \<Longrightarrow>
   persisted (snd (createPlans w ins)) = slice_last MAX_TX (persisted w @ fst (createPlans w ins))"
proof (induction ins arbitrary: w)
  case Nil
  then show ?case by simp
next
  case (Cons i rest)
  let ?tx = "fst (createPlan w i)" and ?w1 = "snd (createPlan w i)"
  show ?case
  proof (cases "rest = []")
    case True
    then show ?thesis by (simp add: split_def Let_def createPlan_world)
  next
    case False
    have "persisted (snd (createPlans ?w1 rest))
            = slice_last MAX_TX (persisted ?w1 @ fst (createPlans ?w1 rest))"
      by (rule Cons.IH [OF False])
    also have "\<dots> = slice_last MAX_TX ((persisted w @ [?tx]) @ fst (createPlans ?w1 rest))"
      by (simp only: createPlan_world slice_last_slice_last)
    finally show ?thesis by (simp add: split_def Let_def)
  qed
qed

text \<open>
  C5: starting from an empty store, after the calls of \<open>createPlan\<close> for the inputs \<open>ins\<close>
  the store on disk holds the last 200 of the transactions created, in the order of their
  creation, which are \<open>min N 200\<close> transactions for \<open>N\<close> calls; and what any write leaves
  on disk is the last 200 entries of the sequence it was given.
\<close>

theorem createPlans_store_bound:
  assumes "persisted w = []"
  shows "persisted (snd (createPlans w ins)) = slice_last 200 (fst (createPlans w ins))
         \<and> length (persisted (snd (createPlans w ins))) = min (length ins) 200
         \<and> persisted (writeStore w' store) = slice_last 200 store"
proof (cases "ins = []")
  case True
  with assms show ?thesis by (simp add: slice_last_def persisted_writeStore MAX_TX_def)
next
  case False
  have "persisted (snd (createPlans w ins)) = slice_last 200 (fst (createPlans w ins))"
    using persisted_createPlans [OF False, of w] assms by (simp add: MAX_TX_def)
  then show ?thesis
    by (simp add: length_slice_last length_createPlans persisted_writeStore MAX_TX_def)
qed

lemma persisted_demo_world: "persisted demo_world = []"
  by (simp add: persisted_files demo_world_def)

theorem createPlans_store_bound_witness:
  "persisted demo_world = []
   \<and> persisted (snd (createPlans demo_world [e2_input, e2_input, e2_input]))
       = slice_last 200 (fst (createPlans demo_world [e2_input, e2_input, e2_input]))
   \<and> length (persisted (snd (createPlans demo_world [e2_input, e2_input, e2_input]))) = 3"
proof (intro conjI)
  note t = createPlans_store_bound [OF persisted_demo_world,
      of "[e2_input, e2_input, e2_input]" demo_world "[]"]
  show "persisted demo_world = []" by (rule persisted_demo_world)
  show "persisted (snd (createPlans demo_world [e2_input, e2_input, e2_input]))
          = slice_last 200 (fst (createPlans demo_world [e2_input, e2_input, e2_input]))"
    using t by blast
  have "length (persisted (snd (createPlans demo_world [e2_input, e2_input, e2_input])))
          = min (length [e2_input, e2_input, e2_input]) 200"
    using t by blast
  then show "length (persisted (snd (createPlans demo_world [e2_input, e2_input, e2_input]))) = 3"
    by (simp del: createPlans.simps)
qed

section \<open>TxEngine: apply and rollback\<close>

lemma findIndex_Some:
  "findIndex P xs = Some n \<Longrightarrow> n < length xs \<and> P (xs ! n)"
  by (induction xs arbitrary: n) (auto split: if_splits option.splits)

lemma findTx_eq:
  "findTx w i =
     ((persisted w,
       (case findIndex (\<lambda>tx. tx_id tx = i) (persisted w) of
          None \<Rightarrow> None | Some index \<Rightarrow> Some (persisted w ! index, index))),
      ensureDirs w)"
  by (simp add: findTx_def readStore_eq split: option.splits)

lemma existsSync_ensureDirs: "existsSync (ensureDirs w) p = existsSync w p"
  by (simp add: existsSync_def ensureDirs_fields)

lemma persisted_ensureDirs: "persisted (ensureDirs w) = persisted w"
  by (rule persisted_cong) (simp_all add: ensureDirs_fields)

lemma persisted_writeStore_200: "persisted (writeStore w store) = slice_last 200 store"
  by (simp add: persisted_writeStore MAX_TX_def)

lemma runPython_command:
  "\<exists>p. command (fst (runPython w args)) = p @ '' '' @ join '' '' args"
proof (cases "files (snd (nowIso w)) (venvPythonPath (backendDir (snd (nowIso w)))) = None")
  case True
  then have "command (fst (runPython w args)) = ''python'' @ '' '' @ join '' '' args"
    by (simp add: runPython_def Let_def split_def)
  then show ?thesis by blast
next
  case False
  then have "command (fst (runPython w args))
               = venvPythonPath (backendDir (snd (nowIso w))) @ '' '' @ join '' '' args"
    by (auto simp add: runPython_def Let_def split_def)
  then show ?thesis by blast
qed

lemma apply_conflict_eq:
  assumes "findIndex (\<lambda>tx. tx_id tx = i) (persisted w) = Some index"
      and "status (persisted w ! index) \<noteq> Planned"
      and "status (persisted w ! index) \<noteq> Failed"
  shows "applyTransaction w i =
           (Failure 409 (''Transaction is '' @ status_text (status (persisted w ! index))
                          @ ''; only planned/failed can be applied.''), ensureDirs w)"
  using assms by (simp add: applyTransaction_def findTx_eq)

text \<open>
  C3: \<open>applyTransaction\<close> on a stored transaction whose status is neither \<open>planned\<close> nor
  \<open>failed\<close> answers 409 (the conflict), and changes nothing: the files on disk and the
  transactions a reader finds are the same, no process was started and no identifier or
  time drawn (\<open>tick\<close> is the same), and the only calls on the disk are the two
  \<open>mkdirSync\<close> of \<open>ensureDirs\<close>, so the store was not written.
\<close>

theorem applyTransaction_conflict:
  assumes "findIndex (\<lambda>tx. tx_id tx = i) (persisted w) = Some index"
      and "status (persisted w ! index) \<noteq> Planned"
      and "status (persisted w ! index) \<noteq> Failed"
  shows "fst (applyTransaction w i) =
           Failure 409 (''Transaction is '' @ status_text (status (persisted w ! index))
                         @ ''; only planned/failed can be applied.'')
         \<and> files (snd (applyTransaction w i)) = files w
         \<and> persisted (snd (applyTransaction w i)) = persisted w
         \<and> tick (snd (applyTransaction w i)) = tick w
         \<and> fslog (snd (applyTransaction w i)) = fslog w @ [Mkdir (envRoot w), Mkdir (snapshotsDir w)]"
  by (simp add: apply_conflict_eq [OF assms] ensureDirs_fields persisted_ensureDirs)

text \<open>A world in which the transaction \<open>T1\<close> was applied with success: its record is in
  the store, its snapshot is on disk and the virtual environment exists.\<close>

definition demo_snapshot :: string where
  "demo_snapshot = path_join (snapshotsDir demo_world) ''T1-before.txt''"

definition demo_tx :: EnvTx where
  "demo_tx =
     \<lparr>tx_id = ''T1'', kind = Repair, status = Succeeded, createdAt = ''t0'', updatedAt = ''t9'',
      requestedPackages = [], planCommands = buildPlan Repair [], steps = [],
      pipCheckOutput = Some ''No broken requirements found.'', pipHealthy = Some True,
      rollbackOf = None, snapshotBefore = Some demo_snapshot, snapshotAfter = None,
      error = None\<rparr>"

definition applied_world :: world where
  "applied_world =
     demo_world\<lparr>files :=
       [txStorePath demo_world \<mapsto> StoreJson [demo_tx],
        venvPythonPath (backendDir demo_world) \<mapsto> Text ''python'',
        demo_snapshot \<mapsto> Text ''pillow==11.0'']\<rparr>"

lemma persisted_applied_world: "persisted applied_world = [demo_tx]"
  by (simp add: persisted_files applied_world_def demo_world_def txStorePath_def envRoot_def
      path_join_def venvPythonPath_def demo_snapshot_def snapshotsDir_def)

lemma findIndex_applied_world:
  "findIndex (\<lambda>tx. tx_id tx = ''T1'') (persisted applied_world) = Some 0"
  by (simp add: persisted_applied_world demo_tx_def)

theorem applyTransaction_conflict_witness:
  "findIndex (\<lambda>tx. tx_id tx = ''T1'') (persisted applied_world) = Some 0
   \<and> status (persisted applied_world ! 0) = Succeeded
   \<and> fst (applyTransaction applied_world ''T1'') =
        Failure 409 ''Transaction is succeeded; only planned/failed can be applied.''
   \<and> persisted (snd (applyTransaction applied_world ''T1'')) = [demo_tx]
   \<and> tick (snd (applyTransaction applied_world ''T1'')) = 0"
proof -
  have s: "status (persisted applied_world ! 0) = Succeeded"
    by (simp add: persisted_applied_world demo_tx_def)
  have t: "tick applied_world = 0" by (simp add: applied_world_def demo_world_def)
  note c = applyTransaction_conflict [OF findIndex_applied_world, unfolded s, simplified]
  show ?thesis
    using c findIndex_applied_world s t by (simp add: persisted_applied_world)
qed

text \<open>The guard of \<open>rollbackTransaction\<close>: the transaction names a snapshot taken before
  it was applied, and that file exists.\<close>

definition has_snapshot :: "world \<Rightarrow> EnvTx \<Rightarrow> bool" where
  "has_snapshot w tx =
     (case snapshotBefore tx of None \<Rightarrow> False | Some snap \<Rightarrow> snap \<noteq> [] \<and> existsSync w snap)"

lemma rollback_conflict:
  assumes "findIndex (\<lambda>tx. tx_id tx = i) (persisted w) = Some index"
      and "\<not> has_snapshot w (persisted w ! index)"
  shows "rollbackTransaction w i =
           (Failure 409 ''No pre-apply snapshot found for this transaction.'', ensureDirs w)"
  using assms
  by (auto simp add: rollbackTransaction_def findTx_eq has_snapshot_def existsSync_ensureDirs
      split: option.splits)

lemma rollback_success:
  assumes "findIndex (\<lambda>tx. tx_id tx = i) (persisted w) = Some index"
      and "has_snapshot w (persisted w ! index)"
  shows "case fst (rollbackTransaction w i) of
           Failure c e \<Rightarrow> False
         | Success rb \<Rightarrow>
             kind rb = Repair \<and> rollbackOf rb = Some i
           \<and> planCommands rb =
               [''python -m pip install -r <snapshot-before>'', ''python -m pip check'']
           \<and> length (steps rb) = 2
           \<and> (\<exists>p. command (last (steps rb)) = p @ '' -m pip check'')
           \<and> status rb = (if ok (last (steps rb)) then Rolled_back else Failed)
           \<and> persisted (snd (rollbackTransaction w i)) = slice_last 200 (persisted w @ [rb])"
proof -
  from assms(2) obtain snap where
    "snapshotBefore (persisted w ! index) = Some snap" "snap \<noteq> []" "existsSync w snap"
    by (auto simp: has_snapshot_def split: option.splits)
  then show ?thesis
    using assms(1) findIndex_Some [OF assms(1)]
      runPython_command [where args = "[''-m'', ''pip'', ''check'']"]
    by (simp add: rollbackTransaction_def findTx_eq existsSync_ensureDirs Let_def split_def
        persisted_writeStore_200)
qed

lemma has_snapshot_applied_world: "has_snapshot applied_world (persisted applied_world ! 0)"
proof -
  have "existsSync applied_world demo_snapshot"
    by (simp add: existsSync_def applied_world_def)
  moreover have "demo_snapshot \<noteq> []"
    by (simp add: demo_snapshot_def path_join_def)
  moreover have "snapshotBefore (persisted applied_world ! 0) = Some demo_snapshot"
    by (simp add: persisted_applied_world demo_tx_def)
  ultimately show ?thesis by (simp add: has_snapshot_def)
qed

text \<open>
  C2, as stated, fails: the transaction a rollback creates has the kind \<open>repair\<close>. The type
  \<open>EnvTxKind\<close> is \<open>'repair' | 'install'\<close>, and no transaction has the kind \<open>rollback\<close>.
\<close>

theorem rollback_kind_counterexample:
  "(case fst (rollbackTransaction applied_world ''T1'') of
      Failure c e \<Rightarrow> False
    | Success rb \<Rightarrow> kind_text (kind rb) = ''repair'' \<and> kind_text (kind rb) \<noteq> ''rollback'')"
proof -
  show ?thesis
    using rollback_success [OF findIndex_applied_world has_snapshot_applied_world]
    by (auto split: response.splits)
qed

text \<open>
  C2, amended: for a stored transaction \<open>T\<close>, \<open>rollbackTransaction\<close> answers 409 (the
  conflict) and leaves the store as it is when \<open>T\<close> names no snapshot or the snapshot is
  not on disk; otherwise it creates a transaction of kind \<open>repair\<close> with \<open>rollbackOf\<close> the
  identifier of \<open>T\<close> and the two plan commands, runs two steps of which the last is
  \<open>pip check\<close>, sets the status to \<open>rolled_back\<close> when that check succeeded and to
  \<open>failed\<close> otherwise, and appends the transaction to the store on disk.
\<close>

theorem rollbackTransaction_amended:
  assumes "findIndex (\<lambda>tx. tx_id tx = i) (persisted w) = Some index"
  shows "if has_snapshot w (persisted w ! index)
         then (case fst (rollbackTransaction w i) of
                 Failure c e \<Rightarrow> False
               | Success rb \<Rightarrow>
                   kind rb = Repair \<and> rollbackOf rb = Some i
                 \<and> planCommands rb =
                     [''python -m pip install -r <snapshot-before>'', ''python -m pip check'']
                 \<and> length (steps rb) = 2
                 \<and> (\<exists>p. command (last (steps rb)) = p @ '' -m pip check'')
                 \<and> status rb = (if ok (last (steps rb)) then Rolled_back else Failed)
                 \<and> persisted (snd (rollbackTransaction w i))
                     = slice_last 200 (persisted w @ [rb]))
         else fst (rollbackTransaction w i)
                = Failure 409 ''No pre-apply snapshot found for this transaction.''
              \<and> persisted (snd (rollbackTransaction w i)) = persisted w"
proof (cases "has_snapshot w (persisted w ! index)")
  case True
  then show ?thesis using rollback_success [OF assms True] by simp
next
  case False
  then show ?thesis
    by (simp add: rollback_conflict [OF assms False] persisted_ensureDirs)
qed

text \<open>The same store, with the snapshot of \<open>T1\<close> gone from the disk.\<close>

definition unsnapped_world :: world where
  "unsnapped_world = demo_world\<lparr>files := [txStorePath demo_world \<mapsto> StoreJson [demo_tx]]\<rparr>"

lemma persisted_unsnapped_world: "persisted unsnapped_world = [demo_tx]"
  by (simp add: persisted_files unsnapped_world_def demo_world_def txStorePath_def envRoot_def)

lemma findIndex_unsnapped_world:
  "findIndex (\<lambda>tx. tx_id tx = ''T1'') (persisted unsnapped_world) = Some 0"
  by (simp add: persisted_unsnapped_world demo_tx_def)

lemma no_snapshot_unsnapped_world:
  "\<not> has_snapshot unsnapped_world (persisted unsnapped_world ! 0)"
proof -
  have "\<not> existsSync unsnapped_world demo_snapshot"
    by (simp add: existsSync_def unsnapped_world_def demo_world_def txStorePath_def
        envRoot_def demo_snapshot_def snapshotsDir_def path_join_def)
  moreover have "snapshotBefore (persisted unsnapped_world ! 0) = Some demo_snapshot"
    by (simp add: persisted_unsnapped_world demo_tx_def)
  ultimately show ?thesis by (simp add: has_snapshot_def)
qed

theorem rollbackTransaction_amended_witness:
  "findIndex (\<lambda>tx. tx_id tx = ''T1'') (persisted applied_world) = Some 0
   \<and> has_snapshot applied_world (persisted applied_world ! 0)
   \<and> (case fst (rollbackTransaction applied_world ''T1'') of
         Failure c e \<Rightarrow> False
       | Success rb \<Rightarrow>
           kind rb = Repair \<and> rollbackOf rb = Some ''T1'' \<and> length (steps rb) = 2
         \<and> status rb = (if ok (last (steps rb)) then Rolled_back else Failed)
         \<and> persisted (snd (rollbackTransaction applied_world ''T1'')) = [demo_tx, rb])
   \<and> findIndex (\<lambda>tx. tx_id tx = ''T1'') (persisted unsnapped_world) = Some 0
   \<and> \<not> has_snapshot unsnapped_world (persisted unsnapped_world ! 0)
   \<and> fst (rollbackTransaction unsnapped_world ''T1'')
        = Failure 409 ''No pre-apply snapshot found for this transaction.''"
proof -
  note a = rollbackTransaction_amended [OF findIndex_applied_world]
  note b = rollbackTransaction_amended [OF findIndex_unsnapped_world]
  have "case fst (rollbackTransaction applied_world ''T1'') of
         Failure c e \<Rightarrow> False
       | Success rb \<Rightarrow>
           kind rb = Repair \<and> rollbackOf rb = Some ''T1'' \<and> length (steps rb) = 2
         \<and> status rb = (if ok (last (steps rb)) then Rolled_back else Failed)
         \<and> persisted (snd (rollbackTransaction applied_world ''T1'')) = [demo_tx, rb]"
    using a has_snapshot_applied_world
    by (auto simp add: persisted_applied_world slice_last_def split: response.splits)
  moreover have "fst (rollbackTransaction unsnapped_world ''T1'')
        = Failure 409 ''No pre-apply snapshot found for this transaction.''"
    using b no_snapshot_unsnapped_world by simp
  ultimately show ?thesis
    using findIndex_applied_world has_snapshot_applied_world findIndex_unsnapped_world
      no_snapshot_unsnapped_world by blast
qed

section \<open>TxEngine: how the store is written\<close>

fun is_rename :: "fsop \<Rightarrow> bool" where
  "is_rename (Rename a b) = True"
| "is_rename (Mkdir a) = False"
| "is_rename (WriteFile a c) = False"

lemma writeFreezeSnapshot_renames:
  "filter is_rename (fslog (snd (writeFreezeSnapshot w tag))) = filter is_rename (fslog w)"
  by (simp add: writeFreezeSnapshot_def Let_def split_def runPython_fields)

lemma writeStore_renames:
  "filter is_rename (fslog (writeStore w store)) = filter is_rename (fslog w)"
  by (simp add: writeStore_fields)

lemma ensureDirs_renames:
  "filter is_rename (fslog (ensureDirs w)) = filter is_rename (fslog w)"
  by (simp add: ensureDirs_fields)

lemma createPlan_renames:
  "filter is_rename (fslog (snd (createPlan w input))) = filter is_rename (fslog w)"
  by (simp add: createPlan_def Let_def split_def readStore_eq writeStore_renames
      ensureDirs_renames nowIso_fields randomUUID_fields)

lemma applyTransaction_renames:
  "filter is_rename (fslog (snd (applyTransaction w i))) = filter is_rename (fslog w)"
  by (simp add: applyTransaction_def findTx_eq Let_def split_def writeStore_renames
      writeFreezeSnapshot_renames ensureDirs_renames nowIso_fields runPython_fields
      split: option.splits)

lemma rollbackTransaction_renames:
  "filter is_rename (fslog (snd (rollbackTransaction w i))) = filter is_rename (fslog w)"
  by (simp add: rollbackTransaction_def findTx_eq Let_def split_def writeStore_renames
      writeFreezeSnapshot_renames ensureDirs_renames nowIso_fields randomUUID_fields
      runPython_fields split: option.splits)

text \<open>
  C4, as stated, fails: \<open>writeStore\<close> writes the file \<open>transactions.json\<close> itself, with one
  \<open>writeFileSync\<close> on its path; it writes no other file and calls no rename.
\<close>

theorem writeStore_rename_counterexample:
  "fslog (writeStore demo_world [demo_tx]) =
     [Mkdir ''/srv/backend-comfyui/user/modusnap_manager_env'',
      Mkdir ''/srv/backend-comfyui/user/modusnap_manager_env/snapshots'',
      WriteFile ''/srv/backend-comfyui/user/modusnap_manager_env/transactions.json''
        (StoreJson [demo_tx])]
   \<and> \<not> list_ex is_rename (fslog (writeStore demo_world [demo_tx]))"
  by (simp add: writeStore_fields demo_world_def envRoot_def snapshotsDir_def txStorePath_def
      path_join_def slice_last_def MAX_TX_def)

text \<open>
  C4, amended: a mutation of the store rewrites \<open>transactions.json\<close> in place: after the
  two \<open>mkdirSync\<close> of \<open>ensureDirs\<close>, \<open>writeStore\<close> makes one \<open>writeFileSync\<close> of the last
  200 transactions on the path of the store, and that is all it does to the disk. None
  of \<open>createPlan\<close>, \<open>applyTransaction\<close> and \<open>rollbackTransaction\<close> renames a file. The code
  has no step that would keep a half-written file from being seen.
\<close>

theorem writeStore_in_place:
  "fslog (writeStore w store) =
     fslog w @ [Mkdir (envRoot w), Mkdir (snapshotsDir w),
                WriteFile (txStorePath w) (StoreJson (slice_last 200 store))]
   \<and> filter is_rename (fslog (snd (createPlan w input))) = filter is_rename (fslog w)
   \<and> filter is_rename (fslog (snd (applyTransaction w i))) = filter is_rename (fslog w)
   \<and> filter is_rename (fslog (snd (rollbackTransaction w i))) = filter is_rename (fslog w)"
  by (simp add: writeStore_fields MAX_TX_def createPlan_renames applyTransaction_renames
      rollbackTransaction_renames)

section \<open>CompatibilityAuditor\<close>

text \<open>\<open>String.prototype.toLowerCase\<close> on the code units below 256.\<close>

definition to_lower_char :: "char \<Rightarrow> char" where
  "to_lower_char c =
     (let n = (of_char c :: nat) in
        if (65 \<le> n \<and> n \<le> 90) \<or> (192 \<le> n \<and> n \<le> 222 \<and> n \<noteq> 215)
        then char_of (n + 32) else c)"

definition toLowerCase :: "string \<Rightarrow> string" where
  "toLowerCase s = map to_lower_char s"

text \<open>\<open>String.prototype.includes\<close>: the text has the pattern as a substring.\<close>

fun starts_with :: "string \<Rightarrow> string \<Rightarrow> bool" where
  "starts_with s [] = True"
| "starts_with [] (p # ps) = False"
| "starts_with (c # cs) (p # ps) = (c = p \<and> starts_with cs ps)"

fun str_includes :: "string \<Rightarrow> string \<Rightarrow> bool" where
  "str_includes [] sub = (sub = [])"
| "str_includes (c # cs) sub = (starts_with (c # cs) sub \<or> str_includes cs sub)"

text \<open>
  The test of a regular expression \<open>/(a|b|c)/i\<close> whose alternatives are plain lower-case
  texts, on a text that \<open>toLowerCase\<close> produced: one of the alternatives is a substring.
\<close>

definition regex_test :: "string list \<Rightarrow> string \<Rightarrow> bool" where
  "regex_test alternatives text = list_ex (str_includes text) alternatives"

definition cudaOnlyMarkers :: "string list" where
  "cudaOnlyMarkers = [''cuda-only'', ''requires cuda'', ''nvidia-only'', ''requires nvidia'',
                      ''tensorrt required'', ''triton required'']"

definition rocmOnlyMarkers :: "string list" where
  "rocmOnlyMarkers = [''rocm-only'', ''requires rocm'', ''hip required'']"

definition cudaMarkers :: "string list" where
  "cudaMarkers = [''cuda'', ''nvidia'', ''tensorrt'', ''cu12'', ''cu11'']"

definition rocmMarkers :: "string list" where
  "rocmMarkers = [''rocm'', ''hip'']"

definition darwinMarkers :: "string list" where
  "darwinMarkers = [''xformers'', ''triton'', ''flash-attn'', ''bitsandbytes'']"

text \<open>
  A catalog item as the preflight route reads it. \<open>ui_id\<close> and \<open>uiKey\<close> (the property
  \<open>__uiKey\<close>) come through the index signature of the type; \<open>None\<close> is a property that
  is absent.
\<close>

record CatalogItem =
  ui_id :: "string option"
  uiKey :: "string option"
  item_id :: "string option"
  title :: "string option"
  author :: "string option"
  description :: "string option"
  repository :: "string option"
  reference :: "string option"
  item_files :: "string list option"

record HardwareProfile =
  profile :: string
  hasNvidia :: bool
  hasRocm :: bool
  isDarwinArm64 :: bool

text \<open>\<open>readHardwareProfile\<close>, from the content of \<open>.torch_profile\<close> (\<open>None\<close>: no such file).\<close>

definition readHardwareProfile :: "string option \<Rightarrow> HardwareProfile" where
  "readHardwareProfile content =
     (case content of
        None \<Rightarrow> \<lparr>profile = ''unknown'', hasNvidia = False, hasRocm = False, isDarwinArm64 = False\<rparr>
      | Some raw \<Rightarrow>
          (let p = trim raw; lower = toLowerCase p in
             \<lparr>profile = p, hasNvidia = str_includes lower ''nvidia:true'',
              hasRocm = str_includes lower ''rocm:true'',
              isDarwinArm64 = str_includes lower ''darwin-arm64''\<rparr>))"

text \<open>The values that \<open>filter(Boolean)\<close> keeps: the strings that are present and not empty.\<close>

definition truthy :: "string option \<Rightarrow> bool" where
  "truthy v = (case v of None \<Rightarrow> False | Some t \<Rightarrow> t \<noteq> [])"

text \<open>\<open>a || b || ... || d\<close>: the first operand that is truthy, the last one otherwise.\<close>

fun first_truthy :: "string option list \<Rightarrow> string \<Rightarrow> string" where
  "first_truthy [] d = d"
| "first_truthy (v # vs) d = (if truthy v then the v else first_truthy vs d)"

definition getTextBlob :: "CatalogItem \<Rightarrow> string" where
  "getTextBlob item =
     toLowerCase (join '' ''
       (map the (filter truthy
          ([item_id item, title item, author item, description item, repository item,
            reference item]
           @ (case item_files item of None \<Rightarrow> [] | Some fs \<Rightarrow> map Some fs)))))"

datatype Decision = Installable | Warning | Blocked

record PackDecision =
  key :: string
  pd_title :: string
  decision :: Decision
  reasons :: "string list"

text \<open>\<open>assessItem\<close>; \<open>now\<close> is what \<open>Date.now()\<close> answers.\<close>

definition assessItem :: "CatalogItem \<Rightarrow> HardwareProfile \<Rightarrow> nat \<Rightarrow> PackDecision" where
  "assessItem item hw now =
     (let text = getTextBlob item;
          (d1, r1) =
            (if \<not> hasNvidia hw \<and> regex_test cudaOnlyMarkers text then
               (Blocked,
                [''Pack appears to require NVIDIA/CUDA runtime and is marked as NVIDIA-only.''])
             else if \<not> hasNvidia hw \<and> regex_test cudaMarkers text then
               (Warning,
                [''Pack metadata suggests NVIDIA/CUDA dependencies, but NVIDIA hardware is not detected.''])
             else (Installable, []));
          (d2, r2) =
            (if \<not> hasRocm hw \<and> regex_test rocmOnlyMarkers text then
               (Blocked,
                r1 @ [''Pack appears to require ROCm runtime and is marked as ROCm-only.''])
             else if \<not> hasRocm hw \<and> regex_test rocmMarkers text then
               (if d1 \<noteq> Blocked then Warning else d1,
                r1 @ [''Pack metadata suggests ROCm dependencies, but ROCm hardware is not detected.''])
             else (d1, r1));
          (d3, r3) =
            (if isDarwinArm64 hw \<and> regex_test darwinMarkers text then
               (if d2 \<noteq> Blocked then Warning else d2,
                r2 @ [''Pack may require binaries that are often unavailable on macOS ARM64.''])
             else (d2, r2))
      in \<lparr>key = first_truthy [ui_id item, uiKey item, item_id item, title item, repository item]
                  (''item_'' @ string_of_nat now),
          pd_title = first_truthy [title item, item_id item] ''Unknown pack'',
          decision = d3, reasons = r3\<rparr>)"

record Summary =
  n_total :: nat
  n_installable :: nat
  n_warning :: nat
  n_blocked :: nat

record PreflightReport =
  pf_mode :: string
  hardwareProfile :: string
  pf_pipHealthy :: bool
  pf_pipCheckOutput :: string
  summary :: Summary
  globalWarnings :: "string list"
  blockedKeys :: "string list"
  warningKeys :: "string list"
  perItem :: "PackDecision list"
  compact :: bool

text \<open>
  The route \<open>POST\<close> of the preflight, after the body is read: \<open>hw\<close> is the hardware
  profile, \<open>baseline\<close> the outcome of \<open>pipCheck\<close>, and \<open>nowAt k\<close> what \<open>Date.now()\<close>
  answers for the item at position \<open>k\<close>. The answer is the status 400 with its message, or the
  report.
\<close>

definition preflight ::
  "HardwareProfile \<Rightarrow> bool \<times> string \<Rightarrow> (nat \<Rightarrow> nat) \<Rightarrow> string option \<Rightarrow> CatalogItem list
     \<Rightarrow> string + PreflightReport" where
  "preflight hw baseline nowAt mode_opt items =
     (let m = (if truthy mode_opt then the mode_opt else ''install'') in
      if items = [] then Inl ''No items provided for compatibility preflight.''
      else
        (let rows = map (\<lambda>(k, item). assessItem item hw (nowAt k)) (enumerate 0 items);
             w = length (filter (\<lambda>row. decision row = Warning) rows);
             b = length (filter (\<lambda>row. decision row = Blocked) rows);
             isLargeBatch = (length items > 600)
         in Inr \<lparr>pf_mode = m, hardwareProfile = profile hw, pf_pipHealthy = fst baseline,
                  pf_pipCheckOutput = snd baseline,
                  summary = \<lparr>n_total = length items, n_installable = length rows - w - b,
                             n_warning = w, n_blocked = b\<rparr>,
                  globalWarnings =
                    (if \<not> fst baseline then
                       [''Current environment already has pip mismatches. Apply diagnostics fix before large installs.'']
                     else [])
                    @ (if m = ''install'' \<and> length items > 20 then
                         [''Large install batch detected. Install in smaller chunks for faster rollback if one pack fails.'']
                       else []),
                  blockedKeys = map key (filter (\<lambda>row. decision row = Blocked) rows),
                  warningKeys = map key (filter (\<lambda>row. decision row = Warning) rows),
                  perItem = (if isLargeBatch
                             then filter (\<lambda>row. decision row \<noteq> Installable) rows else rows),
                  compact = isLargeBatch\<rparr>))"

lemma decision_assessItem:
  "decision (assessItem item hw now) =
     (if (\<not> hasNvidia hw \<and> regex_test cudaOnlyMarkers (getTextBlob item))
         \<or> (\<not> hasRocm hw \<and> regex_test rocmOnlyMarkers (getTextBlob item))
      then Blocked
      else if (\<not> hasNvidia hw \<and> regex_test cudaMarkers (getTextBlob item))
              \<or> (\<not> hasRocm hw \<and> regex_test rocmMarkers (getTextBlob item))
              \<or> (isDarwinArm64 hw \<and> regex_test darwinMarkers (getTextBlob item))
      then Warning
      else Installable)"
  by (simp add: assessItem_def Let_def split_def)

text \<open>The scenario E4.\<close>

definition e4_item1 :: CatalogItem where
  "e4_item1 =
     \<lparr>ui_id = None, uiKey = None, item_id = None, title = Some ''CUDA-only Flash Attention'',
      author = None, description = Some ''requires cuda'', repository = None, reference = None,
      item_files = None\<rparr>"

definition e4_item2 :: CatalogItem where
  "e4_item2 =
     \<lparr>ui_id = None, uiKey = None, item_id = None, title = Some ''Standard pack'',
      author = None, description = Some ''pure python'', repository = None, reference = None,
      item_files = None\<rparr>"

definition e4_hw :: HardwareProfile where
  "e4_hw = readHardwareProfile (Some ''darwin-arm64-nvidia:false-rocm:false'')"

lemma e4_preflight:
  "case preflight e4_hw (True, ''No broken requirements found.'') (\<lambda>k. 0) (Some ''install'')
          [e4_item1, e4_item2] of
     Inl e \<Rightarrow> False
   | Inr r \<Rightarrow>
       summary r = \<lparr>n_total = 2, n_installable = 1, n_warning = 0, n_blocked = 1\<rparr>
     \<and> blockedKeys r = [key (assessItem e4_item1 e4_hw 0)]
     \<and> blockedKeys r = [''CUDA-only Flash Attention'']"
  by code_simp

text \<open>
  C8: the decision of \<open>assessItem\<close> is \<open>blocked\<close> when a rule that blocks fires, else
  \<open>warning\<close> when a rule that warns fires, else \<open>installable\<close>. Without NVIDIA hardware a
  text with \<open>cuda-only\<close> is blocked, and a text with \<open>cuda\<close> that matches no blocking marker
  is a warning; with NVIDIA hardware a text on which no ROCm rule and no macOS rule fires
  is installable, whatever it says of CUDA. In the scenario E4 the summary is
  \<open>{total: 2, installable: 1, warning: 0, blocked: 1}\<close> and the blocked key is the key of
  the first item.
\<close>

theorem assessItem_precedence:
  "decision (assessItem item hw now) =
     (if (\<not> hasNvidia hw \<and> regex_test cudaOnlyMarkers (getTextBlob item))
         \<or> (\<not> hasRocm hw \<and> regex_test rocmOnlyMarkers (getTextBlob item))
      then Blocked
      else if (\<not> hasNvidia hw \<and> regex_test cudaMarkers (getTextBlob item))
              \<or> (\<not> hasRocm hw \<and> regex_test rocmMarkers (getTextBlob item))
              \<or> (isDarwinArm64 hw \<and> regex_test darwinMarkers (getTextBlob item))
      then Warning
      else Installable)
   \<and> (\<not> hasNvidia hw \<and> str_includes (getTextBlob item) ''cuda-only''
        \<longrightarrow> decision (assessItem item hw now) = Blocked)
   \<and> (\<not> hasNvidia hw \<and> str_includes (getTextBlob item) ''cuda''
        \<and> \<not> regex_test cudaOnlyMarkers (getTextBlob item)
        \<and> \<not> (\<not> hasRocm hw \<and> regex_test rocmOnlyMarkers (getTextBlob item))
        \<longrightarrow> decision (assessItem item hw now) = Warning)
   \<and> (hasNvidia hw
        \<and> \<not> (\<not> hasRocm hw \<and> regex_test rocmOnlyMarkers (getTextBlob item))
        \<and> \<not> (\<not> hasRocm hw \<and> regex_test rocmMarkers (getTextBlob item))
        \<and> \<not> (isDarwinArm64 hw \<and> regex_test darwinMarkers (getTextBlob item))
        \<longrightarrow> decision (assessItem item hw now) = Installable)
   \<and> (case preflight e4_hw (True, ''No broken requirements found.'') (\<lambda>k. 0) (Some ''install'')
              [e4_item1, e4_item2] of
         Inl e \<Rightarrow> False
       | Inr r \<Rightarrow>
           summary r = \<lparr>n_total = 2, n_installable = 1, n_warning = 0, n_blocked = 1\<rparr>
         \<and> blockedKeys r = [key (assessItem e4_item1 e4_hw 0)]
         \<and> blockedKeys r = [''CUDA-only Flash Attention''])"
proof -
  have a: "str_includes t ''cuda-only'' \<Longrightarrow> regex_test cudaOnlyMarkers t" for t
    by (simp add: regex_test_def cudaOnlyMarkers_def)
  have b: "str_includes t ''cuda'' \<Longrightarrow> regex_test cudaMarkers t" for t
    by (simp add: regex_test_def cudaMarkers_def)
  show ?thesis
    using a [of "getTextBlob item"] b [of "getTextBlob item"] e4_preflight
    by (simp only: decision_assessItem) auto
qed

definition cuda_item :: CatalogItem where
  "cuda_item =
     \<lparr>ui_id = None, uiKey = None, item_id = Some ''fast-kernels'', title = Some ''Fast kernels'',
      author = None, description = Some ''CUDA kernels for attention'', repository = None,
      reference = None, item_files = None\<rparr>"

definition nvidia_hw :: HardwareProfile where
  "nvidia_hw = readHardwareProfile (Some ''linux-x86_64-nvidia:true-rocm:false'')"

theorem assessItem_precedence_witness:
  "(\<not> hasNvidia e4_hw \<and> str_includes (getTextBlob e4_item1) ''cuda-only'')
   \<and> decision (assessItem e4_item1 e4_hw 0) = Blocked
   \<and> (\<not> hasNvidia e4_hw \<and> str_includes (getTextBlob cuda_item) ''cuda''
        \<and> \<not> regex_test cudaOnlyMarkers (getTextBlob cuda_item)
        \<and> \<not> (\<not> hasRocm e4_hw \<and> regex_test rocmOnlyMarkers (getTextBlob cuda_item)))
   \<and> decision (assessItem cuda_item e4_hw 0) = Warning
   \<and> (hasNvidia nvidia_hw
        \<and> \<not> (\<not> hasRocm nvidia_hw \<and> regex_test rocmOnlyMarkers (getTextBlob e4_item1))
        \<and> \<not> (\<not> hasRocm nvidia_hw \<and> regex_test rocmMarkers (getTextBlob e4_item1))
        \<and> \<not> (isDarwinArm64 nvidia_hw \<and> regex_test darwinMarkers (getTextBlob e4_item1)))
   \<and> decision (assessItem e4_item1 nvidia_hw 0) = Installable"
proof -
  have h1: "\<not> hasNvidia e4_hw \<and> str_includes (getTextBlob e4_item1) ''cuda-only''"
    by code_simp
  have h2: "\<not> hasNvidia e4_hw \<and> str_includes (getTextBlob cuda_item) ''cuda''
        \<and> \<not> regex_test cudaOnlyMarkers (getTextBlob cuda_item)
        \<and> \<not> (\<not> hasRocm e4_hw \<and> regex_test rocmOnlyMarkers (getTextBlob cuda_item))"
    by code_simp
  have h3: "hasNvidia nvidia_hw
        \<and> \<not> (\<not> hasRocm nvidia_hw \<and> regex_test rocmOnlyMarkers (getTextBlob e4_item1))
        \<and> \<not> (\<not> hasRocm nvidia_hw \<and> regex_test rocmMarkers (getTextBlob e4_item1))
        \<and> \<not> (isDarwinArm64 nvidia_hw \<and> regex_test darwinMarkers (getTextBlob e4_item1))"
    by code_simp
  from h1 assessItem_precedence [of e4_item1 e4_hw 0]
  have c1: "decision (assessItem e4_item1 e4_hw 0) = Blocked" by blast
  from h2 assessItem_precedence [of cuda_item e4_hw 0]
  have c2: "decision (assessItem cuda_item e4_hw 0) = Warning" by blast
  from h3 assessItem_precedence [of e4_item1 nvidia_hw 0]
  have c3: "decision (assessItem e4_item1 nvidia_hw 0) = Installable" by blast
  from h1 h2 h3 c1 c2 c3 show ?thesis by blast
qed

section \<open>InstallOrchestrator: the install session\<close>

text \<open>A row of \<open>managerPackRows\<close>: the key of the pack in the catalog, and its item.\<close>

record PackRow =
  row_key :: string
  row_title :: string
  row_action :: string
  row_item :: CatalogItem

text \<open>\<open>a || b\<close> for a property \<open>a\<close> that may be absent and a string \<open>b\<close>.\<close>

definition or_else :: "string option \<Rightarrow> string \<Rightarrow> string" where
  "or_else a b = first_truthy [a] b"

definition toCompatibilityPayload :: "PackRow \<Rightarrow> CatalogItem" where
  "toCompatibilityPayload row =
     \<lparr>ui_id = None, uiKey = Some (row_key row),
      item_id = Some (or_else (item_id (row_item row)) (row_key row)),
      title = Some (or_else (title (row_item row)) (row_key row)),
      author = Some (or_else (author (row_item row)) []),
      description = Some (or_else (description (row_item row)) []),
      repository = Some (or_else (repository (row_item row)) []),
      reference = Some (or_else (reference (row_item row)) []),
      item_files = Some (case item_files (row_item row) of None \<Rightarrow> [] | Some fs \<Rightarrow> fs)\<rparr>"

datatype InstallItemStatus = Pending | Queued | Done | FailedItem | Skipped

record InstallItem =
  it_key :: string
  it_title :: string
  it_selected :: bool
  it_status :: InstallItemStatus
  it_details :: "string option"

text \<open>\<open>updateInstallItems\<close>, on the items of the session.\<close>

definition updateInstallItems ::
  "string list \<Rightarrow> InstallItemStatus \<Rightarrow> string \<Rightarrow> InstallItem list \<Rightarrow> InstallItem list" where
  "updateInstallItems keys st details items =
     map (\<lambda>item. if it_key item \<in> set keys
                  then item\<lparr>it_status := st, it_details := Some details\<rparr> else item) items"

definition isInstalledPackAction :: "string \<Rightarrow> bool" where
  "isInstalledPackAction action =
     (action \<in> set [''enabled'', ''disabled'', ''updatable'', ''try-update'', ''uninstall'',
                      ''import-fail'', ''invalid-installation''])"

text \<open>
  What the session cannot compute: whether the cancel flag is set when the chunk \<open>k\<close> is
  about to start, the message of the error \<open>runPackBatchAction\<close> throws on the chunk \<open>k\<close>
  (\<open>None\<close>: it returns), and whether the steps between the preflight and the first chunk
  (the compatibility set, the snapshot) throw.
\<close>

record sessionEnv =
  canceledAt :: "nat \<Rightarrow> bool"
  batchError :: "nat \<Rightarrow> string option"
  prepareThrows :: bool

text \<open>The size of the chunks, the chunk that starts at the index \<open>i\<close> and its number.\<close>

definition chunkSizeOf :: "PackRow list \<Rightarrow> nat" where
  "chunkSizeOf rows = (if length rows > 200 then 20 else 40)"

definition chunk_at :: "nat \<Rightarrow> PackRow list \<Rightarrow> PackRow list" where
  "chunk_at i rows = take (chunkSizeOf rows) (drop i rows)"

definition chunkIndexOf :: "nat \<Rightarrow> PackRow list \<Rightarrow> nat" where
  "chunkIndexOf i rows = i div chunkSizeOf rows + 1"

text \<open>
  The body of the loop for the chunk at \<open>i\<close>: its items are marked \<open>queued\<close>, the chunk is
  given to \<open>runPackBatchAction\<close>, and its items are marked \<open>done\<close>, or \<open>failed\<close> when the
  call throws.
\<close>

definition after_chunk ::
  "sessionEnv \<Rightarrow> nat \<Rightarrow> PackRow list \<Rightarrow> InstallItem list \<Rightarrow> InstallItem list" where
  "after_chunk env i rows items =
     (let chunkKeys = map row_key (chunk_at i rows);
          chunkIndex = chunkIndexOf i rows;
          items1 = updateInstallItems chunkKeys Queued
                     (''queued in chunk '' @ string_of_nat chunkIndex) items
      in (case batchError env chunkIndex of
            None \<Rightarrow> updateInstallItems chunkKeys Done
                      (''queued successfully in chunk '' @ string_of_nat chunkIndex) items1
          | Some msg \<Rightarrow> updateInstallItems chunkKeys FailedItem
                          (if msg = [] then ''chunk failed'' else msg) items1))"

text \<open>
  The loop over the chunks, from the index \<open>i\<close> on. It answers the chunks given to
  \<open>runPackBatchAction\<close>, in order, and the items of the session at the end.
\<close>

function submit_chunks ::
  "sessionEnv \<Rightarrow> nat \<Rightarrow> PackRow list \<Rightarrow> InstallItem list
     \<Rightarrow> PackRow list list \<times> InstallItem list" where
  "submit_chunks env i rows items =
     (if \<not> i < length rows then ([], items)
      else if canceledAt env (chunkIndexOf i rows) then ([], items)
      else
        (let (submitted, final) =
               submit_chunks env (i + chunkSizeOf rows) rows (after_chunk env i rows items)
         in (chunk_at i rows # submitted, final)))"
  by pat_completeness auto
termination
  by (relation "measure (\<lambda>(env, i, rows, items). length rows - i)")
    (auto simp: chunkSizeOf_def)

declare submit_chunks.simps [simp del]

definition candidateRows :: "InstallItem list \<Rightarrow> PackRow list \<Rightarrow> PackRow list" where
  "candidateRows items managerPackRows =
     filter (\<lambda>row. \<not> isInstalledPackAction (row_action row))
       (filter (\<lambda>row. row_key row \<in> set (map it_key (filter it_selected items)))
          managerPackRows)"

definition incompatibleKeys :: "PackDecision list \<Rightarrow> string list" where
  "incompatibleKeys entries = map key (filter (\<lambda>entry. decision entry \<noteq> Installable) entries)"

text \<open>
  \<open>executeInstallSession\<close> up to the end of the loop over the chunks: from the items of
  the session and the rows of the catalog to the chunks submitted and the items at the
  end. The preflight is the route above, on the hardware profile \<open>hw\<close>.
\<close>

definition executeInstallSession ::
  "HardwareProfile \<Rightarrow> bool \<times> string \<Rightarrow> (nat \<Rightarrow> nat) \<Rightarrow> sessionEnv \<Rightarrow> InstallItem list
     \<Rightarrow> PackRow list \<Rightarrow> PackRow list list \<times> InstallItem list" where
  "executeInstallSession hw baseline nowAt env items managerPackRows =
     (let candidates = candidateRows items managerPackRows in
      if candidates = [] then ([], items)
      else
        (case preflight hw baseline nowAt (Some ''install'')
                (map toCompatibilityPayload candidates) of
           Inl e \<Rightarrow> ([], items)
         | Inr report \<Rightarrow>
             (let bad = incompatibleKeys (perItem report);
                  items1 = (if bad \<noteq> []
                            then updateInstallItems bad Skipped
                                   ''removed by compatibility preflight'' items
                            else items);
                  installableRows = filter (\<lambda>row. row_key row \<notin> set bad) candidates
              in if installableRows = [] then ([], items1)
                 else if prepareThrows env then ([], items1)
                 else submit_chunks env 0 installableRows items1)))"

lemma key_payload:
  "row_key row \<noteq> [] \<Longrightarrow> key (assessItem (toCompatibilityPayload row) hw n) = row_key row"
  by (simp add: assessItem_def Let_def split_def toCompatibilityPayload_def truthy_def)

lemma decision_now:
  "decision (assessItem item hw n) = decision (assessItem item hw 0)"
  by (simp add: decision_assessItem)

lemma incompatibleKeys_filter:
  "incompatibleKeys (filter (\<lambda>row. decision row \<noteq> Installable) rows) = incompatibleKeys rows"
  by (simp add: incompatibleKeys_def)

lemma perItem_preflight:
  "preflight hw baseline nowAt m items = Inr report \<Longrightarrow>
   incompatibleKeys (perItem report)
     = incompatibleKeys (map (\<lambda>(k, item). assessItem item hw (nowAt k)) (enumerate 0 items))"
  by (auto simp add: preflight_def Let_def incompatibleKeys_filter split: if_splits)

lemma in_incompatibleKeys:
  assumes "x \<in> set items" "decision (assessItem x hw 0) \<noteq> Installable"
  shows "\<exists>n. key (assessItem x hw n) \<in> set (incompatibleKeys
            (map (\<lambda>(k, item). assessItem item hw (nowAt k)) (enumerate 0 items)))"
proof -
  from assms(1) obtain k where k: "k < length items" "items ! k = x"
    by (auto simp: in_set_conv_nth)
  then have "(k, x) \<in> set (enumerate 0 items)"
    by (auto simp: in_set_enumerate_eq)
  then have "assessItem x hw (nowAt k)
               \<in> set (map (\<lambda>(k, item). assessItem item hw (nowAt k)) (enumerate 0 items))"
    by force
  moreover have "decision (assessItem x hw (nowAt k)) \<noteq> Installable"
    using assms(2) decision_now by metis
  ultimately show ?thesis
    unfolding incompatibleKeys_def by (intro exI [of _ "nowAt k"]) auto
qed

lemma updateInstallItems_other:
  "x \<in> set (updateInstallItems keys st d items) \<Longrightarrow> it_key x \<notin> set keys \<Longrightarrow> x \<in> set items"
  by (auto simp: updateInstallItems_def split: if_splits)

lemma updateInstallItems_marked:
  "x \<in> set (updateInstallItems keys st d items) \<Longrightarrow> it_key x \<in> set keys \<Longrightarrow>
     it_status x = st \<and> it_details x = Some d"
  by (auto simp: updateInstallItems_def split: if_splits)

lemma updateInstallItems_keys:
  "map it_key (updateInstallItems keys st d items) = map it_key items"
  by (simp add: updateInstallItems_def)

lemma set_chunk_at: "set (chunk_at i rows) \<subseteq> set rows"
  by (auto simp: chunk_at_def dest: in_set_takeD in_set_dropD)

lemma after_chunk_other:
  assumes "x \<in> set (after_chunk env i rows items)" "it_key x \<notin> row_key ` set rows"
  shows "x \<in> set items"
proof -
  have nk: "it_key x \<notin> set (map row_key (chunk_at i rows))"
    using assms(2) set_chunk_at [of i rows] by auto
  show ?thesis
    using assms(1) nk
    by (auto simp: after_chunk_def Let_def split: option.splits dest!: updateInstallItems_other)
qed

lemma after_chunk_keys: "map it_key (after_chunk env i rows items) = map it_key items"
  by (simp add: after_chunk_def Let_def updateInstallItems_keys split: option.splits)

lemma submit_chunks_stop:
  "\<not> i < length rows \<or> canceledAt env (chunkIndexOf i rows) \<Longrightarrow>
   submit_chunks env i rows items = ([], items)"
  by (subst submit_chunks.simps) auto

lemma submit_chunks_step:
  "i < length rows \<Longrightarrow> \<not> canceledAt env (chunkIndexOf i rows) \<Longrightarrow>
   submit_chunks env i rows items =
     (chunk_at i rows
        # fst (submit_chunks env (i + chunkSizeOf rows) rows (after_chunk env i rows items)),
      snd (submit_chunks env (i + chunkSizeOf rows) rows (after_chunk env i rows items)))"
  by (subst submit_chunks.simps) (simp add: split_def Let_def)

lemma submit_chunks_rows:
  "chunk \<in> set (fst (submit_chunks env i rows items)) \<Longrightarrow> set chunk \<subseteq> set rows"
proof (induction env i rows items rule: submit_chunks.induct)
  case (1 env i rows items)
  show ?case
  proof (cases "i < length rows \<and> \<not> canceledAt env (chunkIndexOf i rows)")
    case False
    then show ?thesis using "1.prems" by (simp add: submit_chunks_stop)
  next
    case True
    then have "chunk = chunk_at i rows \<or>
        chunk \<in> set (fst (submit_chunks env (i + chunkSizeOf rows) rows
                            (after_chunk env i rows items)))"
      using "1.prems" by (simp add: submit_chunks_step)
    then show ?thesis using "1.IH" True set_chunk_at by blast
  qed
qed

lemma submit_chunks_items:
  "x \<in> set (snd (submit_chunks env i rows items)) \<Longrightarrow> it_key x \<notin> row_key ` set rows
     \<Longrightarrow> x \<in> set items"
proof (induction env i rows items rule: submit_chunks.induct)
  case (1 env i rows items)
  show ?case
  proof (cases "i < length rows \<and> \<not> canceledAt env (chunkIndexOf i rows)")
    case False
    then show ?thesis using "1.prems" by (simp add: submit_chunks_stop)
  next
    case True
    then have "x \<in> set (snd (submit_chunks env (i + chunkSizeOf rows) rows
                               (after_chunk env i rows items)))"
      using "1.prems"(1) by (simp add: submit_chunks_step)
    then have "x \<in> set (after_chunk env i rows items)"
      using "1.IH" True "1.prems"(2) by blast
    then show ?thesis using after_chunk_other "1.prems"(2) by blast
  qed
qed

lemma submit_chunks_keys:
  "map it_key (snd (submit_chunks env i rows items)) = map it_key items"
proof (induction env i rows items rule: submit_chunks.induct)
  case (1 env i rows items)
  show ?case
  proof (cases "i < length rows \<and> \<not> canceledAt env (chunkIndexOf i rows)")
    case False
    then show ?thesis by (simp add: submit_chunks_stop)
  next
    case True
    then show ?thesis using "1.IH" by (simp add: submit_chunks_step after_chunk_keys)
  qed
qed

text \<open>The decision of the preflight on the payload of a row.\<close>

definition row_decision :: "HardwareProfile \<Rightarrow> PackRow \<Rightarrow> Decision" where
  "row_decision hw row = decision (assessItem (toCompatibilityPayload row) hw 0)"

lemma preflight_candidates:
  assumes "cands \<noteq> []"
  obtains report where
    "preflight hw baseline nowAt (Some ''install'') (map toCompatibilityPayload cands)
       = Inr report"
  using assms by (auto simp add: preflight_def Let_def)

lemma bad_keys:
  assumes "preflight hw baseline nowAt m (map toCompatibilityPayload cands) = Inr report"
      and "row \<in> set cands" "row_key row \<noteq> []" "row_decision hw row \<noteq> Installable"
  shows "row_key row \<in> set (incompatibleKeys (perItem report))"
proof -
  have "toCompatibilityPayload row \<in> set (map toCompatibilityPayload cands)"
    using assms(2) by simp
  from in_incompatibleKeys [OF this, of hw nowAt] assms(4)
  obtain n where "key (assessItem (toCompatibilityPayload row) hw n)
      \<in> set (incompatibleKeys (map (\<lambda>(k, item). assessItem item hw (nowAt k))
                (enumerate 0 (map toCompatibilityPayload cands))))"
    by (auto simp: row_decision_def)
  then show ?thesis
    by (simp add: perItem_preflight [OF assms(1)] key_payload [OF assms(3)])
qed

lemma session_empty:
  "candidateRows items managerPackRows = [] \<Longrightarrow>
   executeInstallSession hw baseline nowAt env items managerPackRows = ([], items)"
  by (simp add: executeInstallSession_def)

lemma session_unfold:
  assumes "candidateRows items managerPackRows \<noteq> []"
      and "preflight hw baseline nowAt (Some ''install'')
             (map toCompatibilityPayload (candidateRows items managerPackRows)) = Inr report"
  shows "executeInstallSession hw baseline nowAt env items managerPackRows =
      (if filter (\<lambda>row. row_key row \<notin> set (incompatibleKeys (perItem report)))
            (candidateRows items managerPackRows) = [] \<or> prepareThrows env
       then ([], if incompatibleKeys (perItem report) \<noteq> []
                 then updateInstallItems (incompatibleKeys (perItem report)) Skipped
                        ''removed by compatibility preflight'' items
                 else items)
       else submit_chunks env 0
              (filter (\<lambda>row. row_key row \<notin> set (incompatibleKeys (perItem report)))
                 (candidateRows items managerPackRows))
              (if incompatibleKeys (perItem report) \<noteq> []
               then updateInstallItems (incompatibleKeys (perItem report)) Skipped
                      ''removed by compatibility preflight'' items
               else items))"
  unfolding executeInstallSession_def Let_def using assms by simp

lemma session_keys:
  "map it_key (snd (executeInstallSession hw baseline nowAt env items managerPackRows))
     = map it_key items"
proof (cases "candidateRows items managerPackRows = []")
  case True
  then show ?thesis by (simp add: session_empty)
next
  case False
  obtain report where rep: "preflight hw baseline nowAt (Some ''install'')
       (map toCompatibilityPayload (candidateRows items managerPackRows)) = Inr report"
    using preflight_candidates [OF False] by blast
  show ?thesis
    by (simp add: session_unfold [OF False rep] updateInstallItems_keys submit_chunks_keys)
qed

lemma candidate_has_item:
  "row \<in> set (candidateRows items managerPackRows) \<Longrightarrow> row_key row \<in> set (map it_key items)"
  by (auto simp: candidateRows_def)

lemma session_skips:
  assumes "row \<in> set (candidateRows items managerPackRows)"
      and "row_key row \<noteq> []"
      and "row_decision hw row \<noteq> Installable"
  shows "(\<forall>chunk \<in> set (fst (executeInstallSession hw baseline nowAt env items managerPackRows)).
            \<forall>r \<in> set chunk. row_key r \<noteq> row_key row)
       \<and> (\<forall>x \<in> set (snd (executeInstallSession hw baseline nowAt env items managerPackRows)).
            it_key x = row_key row \<longrightarrow>
              it_status x = Skipped \<and> it_details x = Some ''removed by compatibility preflight'')"
proof -
  let ?cands = "candidateRows items managerPackRows"
  have ne: "?cands \<noteq> []" using assms(1) by auto
  obtain report where rep: "preflight hw baseline nowAt (Some ''install'')
       (map toCompatibilityPayload ?cands) = Inr report"
    using preflight_candidates [OF ne] by blast
  let ?bad = "incompatibleKeys (perItem report)"
  let ?items1 = "updateInstallItems ?bad Skipped ''removed by compatibility preflight'' items"
  let ?inst = "filter (\<lambda>row. row_key row \<notin> set ?bad) ?cands"
  have bad: "row_key row \<in> set ?bad" using bad_keys [OF rep assms] .
  then have bne: "?bad \<noteq> []" by auto
  have nk: "row_key row \<notin> row_key ` set ?inst" using bad by auto
  have marked: "it_status x = Skipped \<and> it_details x = Some ''removed by compatibility preflight''"
    if "x \<in> set ?items1" "it_key x = row_key row" for x
    using that bad updateInstallItems_marked by metis
  have res: "executeInstallSession hw baseline nowAt env items managerPackRows =
      (if ?inst = [] \<or> prepareThrows env then ([], ?items1)
       else submit_chunks env 0 ?inst ?items1)"
    using bne by (simp add: session_unfold [OF ne rep] cong: if_cong)
  show ?thesis
  proof (cases "?inst = [] \<or> prepareThrows env")
    case True
    then have "executeInstallSession hw baseline nowAt env items managerPackRows = ([], ?items1)"
      by (simp only: res if_True)
    then show ?thesis using marked by simp
  next
    case False
    then have eq: "executeInstallSession hw baseline nowAt env items managerPackRows
                  = submit_chunks env 0 ?inst ?items1"
      by (simp only: res if_False)
    have a: "row_key r \<noteq> row_key row"
      if "chunk \<in> set (fst (submit_chunks env 0 ?inst ?items1))" "r \<in> set chunk" for chunk r
    proof -
      have "r \<in> set ?inst" using submit_chunks_rows [OF that(1)] that(2) by blast
      then show ?thesis using nk by (metis image_eqI)
    qed
    have b: "it_status x = Skipped \<and> it_details x = Some ''removed by compatibility preflight''"
      if "x \<in> set (snd (submit_chunks env 0 ?inst ?items1))" "it_key x = row_key row" for x
    proof -
      have "it_key x \<notin> row_key ` set ?inst" using nk that(2) by simp
      from submit_chunks_items [OF that(1) this] show ?thesis using marked that(2) by blast
    qed
    show ?thesis unfolding eq using a b by blast
  qed
qed

lemma session_submits_installable:
  assumes "chunk \<in> set (fst (executeInstallSession hw baseline nowAt env items managerPackRows))"
      and "r \<in> set chunk" "row_key r \<noteq> []"
  shows "row_decision hw r = Installable"
proof (rule ccontr)
  assume d: "row_decision hw r \<noteq> Installable"
  let ?cands = "candidateRows items managerPackRows"
  have ne: "?cands \<noteq> []"
    using assms(1) session_empty [of items managerPackRows hw baseline nowAt env] by force
  obtain report where rep: "preflight hw baseline nowAt (Some ''install'')
       (map toCompatibilityPayload ?cands) = Inr report"
    using preflight_candidates [OF ne] by blast
  let ?bad = "incompatibleKeys (perItem report)"
  let ?inst = "filter (\<lambda>row. row_key row \<notin> set ?bad) ?cands"
  have "\<exists>its. chunk \<in> set (fst (submit_chunks env 0 ?inst its))"
  proof (cases "?inst = [] \<or> prepareThrows env")
    case True
    then have "fst (executeInstallSession hw baseline nowAt env items managerPackRows) = []"
      by (simp only: session_unfold [OF ne rep] if_True fst_conv)
    then show ?thesis using assms(1) by simp
  next
    case False
    then show ?thesis
      using assms(1) by (simp only: session_unfold [OF ne rep] if_False) blast
  qed
  then have "r \<in> set ?inst" using submit_chunks_rows assms(2) by blast
  then have "r \<in> set ?cands" "row_key r \<notin> set ?bad" by auto
  then show False using bad_keys [OF rep _ assms(3) d] by blast
qed


text \<open>
  For the packs whose key in the catalog is not empty, the session does what it is meant
  to: every candidate whose preflight decision is not \<open>installable\<close> (a warning as well
  as a block) has an item in the session, every item with its key ends \<open>skipped\<close> with
  the reason \<open>removed by compatibility preflight\<close>, and no pack with its key is in a
  chunk that is submitted; and every such pack in a submitted chunk has the decision
  \<open>installable\<close>.
\<close>

lemma session_skips_keyed:
  "(\<forall>row \<in> set (candidateRows items managerPackRows).
      row_key row \<noteq> [] \<and> row_decision hw row \<noteq> Installable \<longrightarrow>
        row_key row \<in> it_key ` set (snd (executeInstallSession hw baseline nowAt env items
                                            managerPackRows))
      \<and> (\<forall>x \<in> set (snd (executeInstallSession hw baseline nowAt env items managerPackRows)).
            it_key x = row_key row \<longrightarrow>
              it_status x = Skipped \<and> it_details x = Some ''removed by compatibility preflight'')
      \<and> (\<forall>chunk \<in> set (fst (executeInstallSession hw baseline nowAt env items managerPackRows)).
            \<forall>r \<in> set chunk. row_key r \<noteq> row_key row))
   \<and> (\<forall>chunk \<in> set (fst (executeInstallSession hw baseline nowAt env items managerPackRows)).
        \<forall>r \<in> set chunk. row_key r \<noteq> [] \<longrightarrow> row_decision hw r = Installable)"
proof (intro conjI ballI impI)
  fix row
  assume r: "row \<in> set (candidateRows items managerPackRows)"
    and h: "row_key row \<noteq> [] \<and> row_decision hw row \<noteq> Installable"
  have "row_key row \<in> set (map it_key (snd (executeInstallSession hw baseline nowAt env items
                                            managerPackRows)))"
    using candidate_has_item [OF r] by (simp only: session_keys)
  then show "row_key row \<in> it_key ` set (snd (executeInstallSession hw baseline nowAt env items
                                            managerPackRows))"
    by simp
  note s = session_skips [OF r, of hw baseline nowAt env]
  show "it_status x = Skipped"
    if "x \<in> set (snd (executeInstallSession hw baseline nowAt env items managerPackRows))"
      "it_key x = row_key row" for x
    using s h that by blast
  show "it_details x = Some ''removed by compatibility preflight''"
    if "x \<in> set (snd (executeInstallSession hw baseline nowAt env items managerPackRows))"
      "it_key x = row_key row" for x
    using s h that by blast
  show "row_key r \<noteq> row_key row"
    if "chunk \<in> set (fst (executeInstallSession hw baseline nowAt env items managerPackRows))"
      "r \<in> set chunk" for chunk r
    using s h that by blast
next
  fix chunk r
  assume "chunk \<in> set (fst (executeInstallSession hw baseline nowAt env items managerPackRows))"
    "r \<in> set chunk" "row_key r \<noteq> []"
  then show "row_decision hw r = Installable" by (rule session_submits_installable)
qed

text \<open>A session in which nothing is canceled and nothing throws.\<close>

definition quiet_env :: sessionEnv where
  "quiet_env = \<lparr>canceledAt = (\<lambda>k. False), batchError = (\<lambda>k. None), prepareThrows = False\<rparr>"

text \<open>A pack whose key in the catalog is the empty string, with the item of E4 that
  is blocked, and the session that selects it.\<close>

definition keyless_row :: PackRow where
  "keyless_row =
     \<lparr>row_key = [], row_title = ''CUDA-only Flash Attention'', row_action = ''not-installed'',
      row_item = e4_item1\<lparr>item_id := Some ''flash-attention''\<rparr>\<rparr>"

definition keyless_items :: "InstallItem list" where
  "keyless_items =
     [\<lparr>it_key = [], it_title = ''CUDA-only Flash Attention'', it_selected = True,
       it_status = Pending, it_details = None\<rparr>]"

text \<open>A session over the two packs of E4, each under its key in the catalog.\<close>

definition e4_rows :: "PackRow list" where
  "e4_rows =
     [\<lparr>row_key = ''flash-attention'', row_title = ''CUDA-only Flash Attention'',
       row_action = ''not-installed'', row_item = e4_item1\<rparr>,
      \<lparr>row_key = ''standard-pack'', row_title = ''Standard pack'',
       row_action = ''not-installed'', row_item = e4_item2\<rparr>]"

definition e4_session_items :: "InstallItem list" where
  "e4_session_items =
     [\<lparr>it_key = ''flash-attention'', it_title = ''CUDA-only Flash Attention'', it_selected = True,
       it_status = Pending, it_details = None\<rparr>,
      \<lparr>it_key = ''standard-pack'', it_title = ''Standard pack'', it_selected = True,
       it_status = Pending, it_details = None\<rparr>]"

text \<open>
  C10, on the code: the session drops the packs by the key of their row, and the preflight
  answers under \<open>ui_id || __uiKey || id || ...\<close>, which passes over a key that is the
  empty string. A pack under the empty key that the preflight blocks is answered under
  its \<open>id\<close>; the session marks no item, submits the pack in a chunk and marks it \<open>done\<close>.
  The same pack under the key \<open>flash-attention\<close> is skipped and only the other pack of E4
  is submitted.
\<close>

theorem session_submits_blocked_pack:
  "row_decision e4_hw keyless_row = Blocked
   \<and> key (assessItem (toCompatibilityPayload keyless_row) e4_hw 0) = ''flash-attention''
   \<and> executeInstallSession e4_hw (True, ''ok'') (\<lambda>k. 0) quiet_env keyless_items [keyless_row]
       = ([[keyless_row]],
          [\<lparr>it_key = [], it_title = ''CUDA-only Flash Attention'', it_selected = True,
            it_status = Done, it_details = Some ''queued successfully in chunk 1''\<rparr>])
   \<and> row_decision e4_hw (e4_rows ! 0) = Blocked
   \<and> key (assessItem (toCompatibilityPayload (e4_rows ! 0)) e4_hw 0) = ''flash-attention''
   \<and> executeInstallSession e4_hw (True, ''ok'') (\<lambda>k. 0) quiet_env e4_session_items e4_rows
       = ([[e4_rows ! 1]],
          [\<lparr>it_key = ''flash-attention'', it_title = ''CUDA-only Flash Attention'',
            it_selected = True, it_status = Skipped,
            it_details = Some ''removed by compatibility preflight''\<rparr>,
           \<lparr>it_key = ''standard-pack'', it_title = ''Standard pack'', it_selected = True,
            it_status = Done, it_details = Some ''queued successfully in chunk 1''\<rparr>])"
  by code_simp

section \<open>DepReconciler: versions\<close>

text \<open>
  The reconciler is the Python script of \<open>runDependencyAudit\<close>. It takes versions and
  specifiers from the library \<open>packaging\<close>, which is not part of the repository. What follows
  is \<open>packaging.version.Version\<close>: the regular expression \<open>VERSION_PATTERN\<close> between \<open>^\s*\<close> and
  \<open>\s*$\<close>, matched without regard to case, the fields read from its groups, the text
  \<open>str\<close> prints and the key by which versions compare.
\<close>

definition is_digit :: "char \<Rightarrow> bool" where
  "is_digit c = (48 \<le> (of_char c :: nat) \<and> (of_char c :: nat) \<le> 57)"

definition nat_of_digits :: "string \<Rightarrow> nat" where
  "nat_of_digits ds = foldl (\<lambda>n c. 10 * n + (of_char c - 48)) 0 ds"

text \<open>\<open>str.split(sep)\<close> for a separator of one character.\<close>

fun split_on :: "char \<Rightarrow> string \<Rightarrow> string list" where
  "split_on sep [] = [[]]"
| "split_on sep (c # cs) =
     (if c = sep then [] # split_on sep cs
      else (case split_on sep cs of [] \<Rightarrow> [[c]] | p # ps \<Rightarrow> (c # p) # ps))"

text \<open>The characters for which \<open>str.isspace\<close> holds, below 256; they are those \<open>\s\<close> matches.\<close>

definition py_spaces :: "char list" where
  "py_spaces = [CHR 0x09, CHR 0x0A, CHR 0x0B, CHR 0x0C, CHR 0x0D, CHR 0x1C, CHR 0x1D, CHR 0x1E,
                CHR 0x1F, CHR 0x20, CHR 0x85, CHR 0xA0]"

definition is_py_space :: "char \<Rightarrow> bool" where
  "is_py_space c = (c \<in> set py_spaces)"

text \<open>The lower case of a letter of \<open>A-Z\<close>; the letters of the pattern match both cases.\<close>

definition ascii_lower :: "char \<Rightarrow> char" where
  "ascii_lower c =
     (if 65 \<le> (of_char c :: nat) \<and> (of_char c :: nat) \<le> 90 then char_of (of_char c + 32 :: nat)
      else c)"

text \<open>The classes \<open>[a-z0-9]\<close>, without regard to case, and \<open>[-_\.]\<close>.\<close>

definition is_alnum :: "char \<Rightarrow> bool" where
  "is_alnum c =
     (is_digit c
      \<or> (97 \<le> (of_char (ascii_lower c) :: nat) \<and> (of_char (ascii_lower c) :: nat) \<le> 122))"

definition is_separator :: "char \<Rightarrow> bool" where
  "is_separator c = (c \<in> set ''-_.'')"

text \<open>
  A part of the pattern is the function that answers, for a text, the ways in which the
  part matches at its start, in the order in which the matcher tries them (a greedy
  repetition takes the most it can first): each way is the rest of the text after the
  match, with what was captured when the part is a group. \<open>opt_class\<close> is \<open>[...]?\<close>,
  \<open>plus_class\<close> is \<open>[...]+\<close> with the text it matched, \<open>star_class\<close> is \<open>[...]*\<close>,
  \<open>literal\<close> is a word, \<open>alternatives\<close> is \<open>(w1|w2|...)\<close> with the word it matched in
  lower case, and \<open>number_opt\<close> is \<open>([0-9]+)?\<close>.
\<close>

definition opt_class :: "(char \<Rightarrow> bool) \<Rightarrow> string \<Rightarrow> string list" where
  "opt_class P s = (case s of [] \<Rightarrow> [] | c # cs \<Rightarrow> if P c then [cs] else []) @ [s]"

fun plus_class :: "(char \<Rightarrow> bool) \<Rightarrow> string \<Rightarrow> (string \<times> string) list" where
  "plus_class P [] = []"
| "plus_class P (c # cs) =
     (if P c then map (\<lambda>(m, r). (c # m, r)) (plus_class P cs) @ [([c], cs)] else [])"

definition star_class :: "(char \<Rightarrow> bool) \<Rightarrow> string \<Rightarrow> string list" where
  "star_class P s = map snd (plus_class P s) @ [s]"

definition literal :: "string \<Rightarrow> string \<Rightarrow> string list" where
  "literal w s = (if map ascii_lower (take (length w) s) = w then [drop (length w) s] else [])"

definition alternatives :: "string list \<Rightarrow> string \<Rightarrow> (string \<times> string) list" where
  "alternatives ws s = concat (map (\<lambda>w. map (\<lambda>r. (w, r)) (literal w s)) ws)"

definition number_opt :: "string \<Rightarrow> (string option \<times> string) list" where
  "number_opt s = map (\<lambda>(m, r). (Some m, r)) (plus_class is_digit s) @ [(None, s)]"

lemma plus_class_shorter: "(m, r) \<in> set (plus_class P s) \<Longrightarrow> length r < length s"
proof (induction s arbitrary: m)
  case Nil
  then show ?case by simp
next
  case (Cons c cs)
  then show ?case by (fastforce split: if_splits)
qed

text \<open>
  \<open>(?:[S]X+)*\<close> for a class \<open>S\<close> of separators and a class \<open>X\<close>, with the texts the
  repetitions of \<open>X+\<close> matched, and \<open>X+(?:[S]X+)*\<close>.
\<close>

function more_segments ::
  "(char \<Rightarrow> bool) \<Rightarrow> (char \<Rightarrow> bool) \<Rightarrow> string \<Rightarrow> (string list \<times> string) list" where
  "more_segments S X [] = [([], [])]"
| "more_segments S X (c # cs) =
     (if S c
      then concat (map (\<lambda>(m, r1). map (\<lambda>(ms, r2). (m # ms, r2)) (more_segments S X r1))
                     (plus_class X cs))
      else [])
     @ [([], c # cs)]"
  by pat_completeness auto
termination
  by (relation "measure (\<lambda>(S, X, s). length s)") (auto dest: plus_class_shorter)

definition segments ::
  "(char \<Rightarrow> bool) \<Rightarrow> (char \<Rightarrow> bool) \<Rightarrow> string \<Rightarrow> (string list \<times> string) list" where
  "segments S X s =
     [(m # ms, r2). (m, r1) \<leftarrow> plus_class X s, (ms, r2) \<leftarrow> more_segments S X r1]"

text \<open>
  The groups of the pattern. A group with a letter and a number,
  \<open>[-_\.]?(?P<l>w1|w2|...)[-_\.]?(?P<n>[0-9]+)?\<close>, answers the two; the groups \<open>pre\<close>,
  \<open>post\<close>, \<open>dev\<close>, the epoch and the local version are optional, and \<open>post\<close> is either
  \<open>-(?P<post_n1>[0-9]+)\<close> or a letter and a number.
\<close>

definition letter_group ::
  "string list \<Rightarrow> string \<Rightarrow> ((string option \<times> string option) \<times> string) list" where
  "letter_group ws s =
     [((Some l, n), r3). r0 \<leftarrow> opt_class is_separator s, (l, r1) \<leftarrow> alternatives ws r0,
                         r2 \<leftarrow> opt_class is_separator r1, (n, r3) \<leftarrow> number_opt r2]"

definition epoch_group :: "string \<Rightarrow> (string option \<times> string) list" where
  "epoch_group s =
     [(Some e, r). (e, r0) \<leftarrow> plus_class is_digit s, r \<leftarrow> literal ''!'' r0] @ [(None, s)]"

definition release_group :: "string \<Rightarrow> (string list \<times> string) list" where
  "release_group s = segments (\<lambda>c. c = CHR ''.'') is_digit s"

definition pre_group :: "string \<Rightarrow> ((string option \<times> string option) \<times> string) list" where
  "pre_group s =
     letter_group [''alpha'', ''a'', ''beta'', ''b'', ''preview'', ''pre'', ''c'', ''rc''] s
     @ [((None, None), s)]"

definition post_group :: "string \<Rightarrow> ((string option \<times> string option) \<times> string) list" where
  "post_group s =
     [((None, Some n), r). r0 \<leftarrow> literal ''-'' s, (n, r) \<leftarrow> plus_class is_digit r0]
     @ letter_group [''post'', ''rev'', ''r''] s
     @ [((None, None), s)]"

definition dev_group :: "string \<Rightarrow> ((string option \<times> string option) \<times> string) list" where
  "dev_group s = letter_group [''dev''] s @ [((None, None), s)]"

definition local_group :: "string \<Rightarrow> (string list option \<times> string) list" where
  "local_group s =
     [(Some segs, r). r0 \<leftarrow> literal ''+'' s, (segs, r) \<leftarrow> segments is_separator is_alnum r0]
     @ [(None, s)]"

text \<open>
  A version: its epoch, its release, its pre-release, post-release and development
  release (a letter among \<open>a\<close>, \<open>b\<close>, \<open>rc\<close>, or \<open>post\<close>, or \<open>dev\<close>, with a number), and its
  local version (numbers and words).
\<close>

record version =
  v_epoch :: nat
  v_release :: "nat list"
  v_pre :: "(string \<times> nat) option"
  v_post :: "(string \<times> nat) option"
  v_dev :: "(string \<times> nat) option"
  v_local :: "(nat + string) list option"

text \<open>\<open>_parse_letter_version\<close>, on the letter and the number of a group.\<close>

definition parse_letter_version :: "string option \<times> string option \<Rightarrow> (string \<times> nat) option" where
  "parse_letter_version g =
     (case g of
        (Some letter, number) \<Rightarrow>
          Some (if letter = ''alpha'' then ''a''
                else if letter = ''beta'' then ''b''
                else if letter \<in> set [''c'', ''pre'', ''preview''] then ''rc''
                else if letter \<in> set [''rev'', ''r''] then ''post''
                else letter,
                case number of None \<Rightarrow> 0 | Some n \<Rightarrow> nat_of_digits n)
      | (None, Some n) \<Rightarrow> Some (''post'', nat_of_digits n)
      | (None, None) \<Rightarrow> None)"

text \<open>\<open>_parse_local_version\<close>, on the parts of the local version.\<close>

definition parse_local_version :: "string list option \<Rightarrow> (nat + string) list option" where
  "parse_local_version loc =
     map_option (map (\<lambda>part. if list_all is_digit part then Inl (nat_of_digits part)
                               else Inr (map ascii_lower part))) loc"

text \<open>The matches of the whole pattern on a text, as the versions read from their groups.\<close>

definition version_matches :: "string \<Rightarrow> version list" where
  "version_matches text =
     [\<lparr>v_epoch = (case e of None \<Rightarrow> 0 | Some ds \<Rightarrow> nat_of_digits ds),
       v_release = map nat_of_digits rel,
       v_pre = parse_letter_version p, v_post = parse_letter_version po,
       v_dev = parse_letter_version d, v_local = parse_local_version lo\<rparr>.
        s0 \<leftarrow> star_class is_py_space text,
        s1 \<leftarrow> opt_class (\<lambda>c. ascii_lower c = CHR ''v'') s0,
        (e, s2) \<leftarrow> epoch_group s1,
        (rel, s3) \<leftarrow> release_group s2,
        (p, s4) \<leftarrow> pre_group s3,
        (po, s5) \<leftarrow> post_group s4,
        (d, s6) \<leftarrow> dev_group s5,
        (lo, s7) \<leftarrow> local_group s6,
        s8 \<leftarrow> star_class is_py_space s7,
        s8 = []]"

text \<open>\<open>Version(text)\<close>: the first match, and \<open>None\<close> when there is none and it raises.\<close>

definition Version :: "string \<Rightarrow> version option" where
  "Version text = (case version_matches text of [] \<Rightarrow> None | v # _ \<Rightarrow> Some v)"

text \<open>\<open>str(version)\<close>.\<close>

definition str_version :: "version \<Rightarrow> string" where
  "str_version v =
     (if v_epoch v \<noteq> 0 then string_of_nat (v_epoch v) @ ''!'' else [])
     @ join ''.'' (map string_of_nat (v_release v))
     @ (case v_pre v of None \<Rightarrow> [] | Some (l, n) \<Rightarrow> l @ string_of_nat n)
     @ (case v_post v of None \<Rightarrow> [] | Some (l, n) \<Rightarrow> ''.post'' @ string_of_nat n)
     @ (case v_dev v of None \<Rightarrow> [] | Some (l, n) \<Rightarrow> ''.dev'' @ string_of_nat n)
     @ (case v_local v of None \<Rightarrow> []
        | Some segs \<Rightarrow>
            ''+'' @ join ''.'' (map (\<lambda>x. case x of Inl i \<Rightarrow> string_of_nat i | Inr s \<Rightarrow> s) segs))"

text \<open>
  Versions compare by the key of \<open>_cmpkey\<close>, a tuple: the epoch, the release without the
  zeros at its end (\<open>1.0\<close> and \<open>1\<close> are equal), the pre-release, the post-release, the
  development release and the local version. An entry of the key that is a letter with a
  number lies between \<open>NegativeInfinity\<close> and \<open>Infinity\<close>, so the three are numbered 1, 0
  and 2 in front; a part of a local version that is a word comes before one that is a
  number, and the key of no local version, \<open>NegativeInfinity\<close>, before every other.
\<close>

type_synonym cmp_key =
  "nat \<times> nat list \<times> (nat \<times> string \<times> nat) \<times> (nat \<times> string \<times> nat) \<times> (nat \<times> string \<times> nat)
   \<times> (nat \<times> nat \<times> string) list"

definition NegativeInfinity :: "nat \<times> string \<times> nat" where
  "NegativeInfinity = (0, [], 0)"

definition Infinity :: "nat \<times> string \<times> nat" where
  "Infinity = (2, [], 0)"

definition letter_key :: "string \<times> nat \<Rightarrow> nat \<times> string \<times> nat" where
  "letter_key p = (1, fst p, snd p)"

definition vkey :: "version \<Rightarrow> cmp_key" where
  "vkey v =
     (v_epoch v,
      rev (dropWhile (\<lambda>x. x = 0) (rev (v_release v))),
      (if v_pre v = None \<and> v_post v = None \<and> v_dev v \<noteq> None then NegativeInfinity
       else (case v_pre v of None \<Rightarrow> Infinity | Some p \<Rightarrow> letter_key p)),
      (case v_post v of None \<Rightarrow> NegativeInfinity | Some p \<Rightarrow> letter_key p),
      (case v_dev v of None \<Rightarrow> Infinity | Some p \<Rightarrow> letter_key p),
      (case v_local v of None \<Rightarrow> []
       | Some segs \<Rightarrow> map (\<lambda>x. case x of Inl i \<Rightarrow> (1, i, []) | Inr s \<Rightarrow> (0, 0, s)) segs))"

definition v_lt :: "version \<Rightarrow> version \<Rightarrow> bool" where
  "v_lt a b = (vkey a < vkey b)"

definition v_eq :: "version \<Rightarrow> version \<Rightarrow> bool" where
  "v_eq a b = (vkey a = vkey b)"

text \<open>
  \<open>_compatible_upper_for\<close>: the version made of the release of \<open>version_text\<close> without its
  last number and with the number before it raised by one, or of its only number raised
  by one; \<open>None\<close> when an exception is caught.
\<close>

definition compatible_upper_for :: "string \<Rightarrow> version option" where
  "compatible_upper_for version_text =
     (case Version version_text of
        None \<Rightarrow> None
      | Some version \<Rightarrow>
          (let release = v_release version in
           if length release \<le> 1 then
             (let major = (if length release = 1 then release ! 0 else 0)
              in Version (string_of_nat (major + 1)))
           else
             (let prefix = butlast release;
                  prefix1 = prefix[length prefix - 1 := prefix ! (length prefix - 1) + 1]
              in Version (join ''.'' (map string_of_nat prefix1)))))"

text \<open>The version that has a release and nothing else.\<close>

definition final_release :: "nat list \<Rightarrow> version" where
  "final_release r =
     \<lparr>v_epoch = 0, v_release = r, v_pre = None, v_post = None, v_dev = None, v_local = None\<rparr>"

section \<open>DepReconciler: the intersection of specifiers\<close>

text \<open>The state of the loop of \<open>specifiers_intersection\<close>. The set \<open>not_equals\<close> is the
  list of its elements, no two of them equal as versions.\<close>

record bounds =
  lower :: "version option"
  lower_inclusive :: bool
  upper :: "version option"
  upper_inclusive :: bool
  exact :: "version option"
  not_equals :: "version list"
  unsupported :: "string list"

definition init_bounds :: bounds where
  "init_bounds =
     \<lparr>lower = None, lower_inclusive = True, upper = None, upper_inclusive = True, exact = None,
      not_equals = [], unsupported = []\<rparr>"

definition unsupported_append :: "bounds \<Rightarrow> string \<Rightarrow> bounds" where
  "unsupported_append st msg = st\<lparr>unsupported := unsupported st @ [msg]\<rparr>"

text \<open>
  The body of the inner loop for one specifier, with its operator and its version text.
  \<open>Inl\<close> is the reason of a \<open>return\<close> from inside the loop.
\<close>

definition scan_sp :: "string \<Rightarrow> bounds \<Rightarrow> string \<times> string \<Rightarrow> string + bounds" where
  "scan_sp spec_text st sp =
     (let op = fst sp; version_text = snd sp in
      if op = ''=='' then
        (case Version version_text of
           None \<Rightarrow> Inr (unsupported_append st
                         (''unable to parse exact version '' @ [CHR 0x27] @ version_text @ [CHR 0x27]))
         | Some v \<Rightarrow>
             (case exact st of
                None \<Rightarrow> Inr (st\<lparr>exact := Some v\<rparr>)
              | Some e \<Rightarrow>
                  if \<not> v_eq e v
                  then Inl (''multiple exact pins: '' @ str_version e @ '', '' @ str_version v)
                  else Inr st))
      else if op = ''!='' then
        (case Version version_text of
           None \<Rightarrow> Inr (unsupported_append st
                         (''unable to parse exclusion '' @ [CHR 0x27] @ version_text @ [CHR 0x27]))
         | Some v \<Rightarrow>
             Inr (if list_ex (v_eq v) (not_equals st) then st
                  else st\<lparr>not_equals := not_equals st @ [v]\<rparr>))
      else if op = ''>'' \<or> op = ''>='' then
        (case Version version_text of
           None \<Rightarrow> Inr (unsupported_append st
                         (''unable to parse lower bound '' @ [CHR 0x27] @ version_text @ [CHR 0x27]))
         | Some v \<Rightarrow>
             (case lower st of
                None \<Rightarrow> Inr (st\<lparr>lower := Some v, lower_inclusive := (op = ''>='')\<rparr>)
              | Some l \<Rightarrow>
                  if v_lt l v \<or> (v_eq v l \<and> op = ''>'')
                  then Inr (st\<lparr>lower := Some v, lower_inclusive := (op = ''>='')\<rparr>)
                  else if v_eq v l \<and> op = ''>'' then Inr (st\<lparr>lower_inclusive := False\<rparr>)
                  else Inr st))
      else if op = ''<'' \<or> op = ''<='' then
        (case Version version_text of
           None \<Rightarrow> Inr (unsupported_append st
                         (''unable to parse upper bound '' @ [CHR 0x27] @ version_text @ [CHR 0x27]))
         | Some v \<Rightarrow>
             (case upper st of
                None \<Rightarrow> Inr (st\<lparr>upper := Some v, upper_inclusive := (op = ''<='')\<rparr>)
              | Some u \<Rightarrow>
                  if v_lt v u \<or> (v_eq v u \<and> op = ''<'')
                  then Inr (st\<lparr>upper := Some v, upper_inclusive := (op = ''<='')\<rparr>)
                  else if v_eq v u \<and> op = ''<'' then Inr (st\<lparr>upper_inclusive := False\<rparr>)
                  else Inr st))
      else if op = ''~='' then
        (case Version version_text of
           None \<Rightarrow> Inr (unsupported_append st
                         (''unable to parse compatible lower bound '' @ [CHR 0x27] @ version_text
                          @ [CHR 0x27]))
         | Some low \<Rightarrow>
             (let up = compatible_upper_for version_text;
                  st1 = (case lower st of
                           None \<Rightarrow> st\<lparr>lower := Some low, lower_inclusive := True\<rparr>
                         | Some l \<Rightarrow>
                             if v_lt l low then st\<lparr>lower := Some low, lower_inclusive := True\<rparr>
                             else st)
              in (case up of
                    None \<Rightarrow> Inr st1
                  | Some u' \<Rightarrow>
                      (case upper st1 of
                         None \<Rightarrow> Inr (st1\<lparr>upper := Some u', upper_inclusive := False\<rparr>)
                       | Some u \<Rightarrow>
                           if v_lt u' u \<or> (v_eq u' u \<and> \<not> upper_inclusive st1)
                           then Inr (st1\<lparr>upper := Some u', upper_inclusive := False\<rparr>)
                           else Inr st1))))
      else if op = ''==='' then
        Inr (unsupported_append st
               (''arbitrary equality '' @ [CHR 0x27] @ spec_text @ [CHR 0x27]
                @ '' is not fully analyzable''))
      else
        Inr (unsupported_append st (''unsupported operator '' @ [CHR 0x27] @ op @ [CHR 0x27])))"

text \<open>The inner loop, over the specifiers of one set.\<close>

fun scan_set :: "string \<Rightarrow> bounds \<Rightarrow> (string \<times> string) list \<Rightarrow> string + bounds" where
  "scan_set spec_text st [] = Inr st"
| "scan_set spec_text st (sp # sps) =
     (case scan_sp spec_text st sp of
        Inl r \<Rightarrow> Inl r
      | Inr st1 \<Rightarrow> scan_set spec_text st1 sps)"

text \<open>
  The outer loop, over the specifier texts. \<open>SpecifierSet\<close> stands for the constructor of
  \<open>packaging\<close> followed by the iteration over the set: it answers the specifiers of the
  text, each with its operator and its version text, in the order the iteration gives
  them, or \<open>None\<close> when the constructor raises.
\<close>

fun scan_specs ::
  "(string \<Rightarrow> (string \<times> string) list option) \<Rightarrow> bounds \<Rightarrow> string list \<Rightarrow> string + bounds" where
  "scan_specs SpecifierSet st [] = Inr st"
| "scan_specs SpecifierSet st (spec_text # rest) =
     (if spec_text = [] then scan_specs SpecifierSet st rest
      else
        (case SpecifierSet spec_text of
           None \<Rightarrow> scan_specs SpecifierSet
                     (unsupported_append st
                        (''unable to parse specifier '' @ [CHR 0x27] @ spec_text @ [CHR 0x27]))
                     rest
         | Some spec_set \<Rightarrow>
             (case scan_set spec_text st spec_set of
                Inl r \<Rightarrow> Inl r
              | Inr st1 \<Rightarrow> scan_specs SpecifierSet st1 rest)))"

text \<open>The dictionary \<open>specifiers_intersection\<close> returns; a key that is absent from it is
  read as the empty list, as its caller reads it.\<close>

record intersection =
  si_ok :: bool
  si_reason :: string
  si_normalized :: string
  si_unsupported :: "string list"

definition failed_with :: "string \<Rightarrow> intersection" where
  "failed_with r = \<lparr>si_ok = False, si_reason = r, si_normalized = [], si_unsupported = []\<rparr>"

text \<open>What follows the loops, on the state they leave.\<close>

definition finish :: "bounds \<Rightarrow> intersection" where
  "finish st =
     (case exact st of
        Some e \<Rightarrow>
          if list_ex (v_eq e) (not_equals st) then
            failed_with (''exact pin '' @ str_version e @ '' is explicitly excluded'')
          else if (case lower st of None \<Rightarrow> False
                   | Some l \<Rightarrow> v_lt e l \<or> (v_eq e l \<and> \<not> lower_inclusive st)) then
            failed_with (''exact pin '' @ str_version e @ '' is below lower bound'')
          else if (case upper st of None \<Rightarrow> False
                   | Some u \<Rightarrow> v_lt u e \<or> (v_eq e u \<and> \<not> upper_inclusive st)) then
            failed_with (''exact pin '' @ str_version e @ '' is above upper bound'')
          else \<lparr>si_ok = True, si_reason = [], si_normalized = ''=='' @ str_version e,
                 si_unsupported = unsupported st\<rparr>
      | None \<Rightarrow>
          (case (lower st, upper st) of
             (Some l, Some u) \<Rightarrow>
               if v_lt u l then
                 failed_with (''lower bound '' @ str_version l @ '' is greater than upper bound ''
                              @ str_version u)
               else if v_eq l u \<and> (\<not> lower_inclusive st \<or> \<not> upper_inclusive st) then
                 failed_with (''bounds collapse to excluded single version '' @ str_version l)
               else if v_eq l u \<and> list_ex (v_eq l) (not_equals st) then
                 failed_with (''only allowed version '' @ str_version l @ '' is excluded'')
               else
                 \<lparr>si_ok = True, si_reason = [],
                  si_normalized = join '',''
                    ([(if lower_inclusive st then ''>='' else ''>'') @ str_version l,
                      (if upper_inclusive st then ''<='' else ''<'') @ str_version u]
                     @ map (\<lambda>v. ''!='' @ str_version v) (sort_key vkey (not_equals st))),
                  si_unsupported = unsupported st\<rparr>
           | (lo, up) \<Rightarrow>
               \<lparr>si_ok = True, si_reason = [],
                si_normalized = join '',''
                  ((case lo of None \<Rightarrow> []
                    | Some l \<Rightarrow> [(if lower_inclusive st then ''>='' else ''>'') @ str_version l])
                   @ (case up of None \<Rightarrow> []
                      | Some u \<Rightarrow> [(if upper_inclusive st then ''<='' else ''<'') @ str_version u])
                   @ map (\<lambda>v. ''!='' @ str_version v) (sort_key vkey (not_equals st))),
                si_unsupported = unsupported st\<rparr>))"

definition specifiers_intersection ::
  "(string \<Rightarrow> (string \<times> string) list option) \<Rightarrow> string list \<Rightarrow> intersection" where
  "specifiers_intersection SpecifierSet specs =
     (case scan_specs SpecifierSet init_bounds specs of
        Inl r \<Rightarrow> failed_with r
      | Inr st \<Rightarrow> finish st)"

section \<open>DepReconciler: the audit of the packages\<close>

text \<open>\<open>str.strip()\<close>.\<close>

definition py_strip :: "string \<Rightarrow> string" where
  "py_strip s =
     rev (dropWhile (\<lambda>c. c \<in> set py_spaces) (rev (dropWhile (\<lambda>c. c \<in> set py_spaces) s)))"

text \<open>\<open>sorted(set(xs))\<close> for strings.\<close>

definition sorted_set :: "string list \<Rightarrow> string list" where
  "sorted_set xs = sort (remdups xs)"

text \<open>An entry of \<open>pkg_map\<close>: a requirement line of a file of a node.\<close>

record entry =
  e_node :: string
  e_file :: string
  e_spec :: string
  e_marker :: string
  e_raw :: string

record conflict =
  c_package :: string
  c_specs :: "string list"
  c_markers :: "string list"
  c_reasons :: "string list"
  c_entries :: "entry list"

definition exact_versions :: "string \<Rightarrow> string list" where
  "exact_versions spec =
     map (\<lambda>part. py_strip (drop 2 part))
       (filter (\<lambda>part. starts_with part ''=='')
          (map py_strip (filter (\<lambda>x. py_strip x \<noteq> []) (split_on CHR '','' spec))))"

text \<open>The lists the loop over the packages appends to.\<close>

record audit_state =
  conflicts :: "conflict list"
  compatible_requirements :: "string list"
  incompatible_lines :: "string list"

text \<open>
  The body of the loop for one package and its entries. \<open>satisfies\<close> is the function of
  that name of the script, which asks \<open>packaging\<close> whether a version is in a specifier set.
\<close>

definition audit_package ::
  "(string \<Rightarrow> (string \<times> string) list option) \<Rightarrow> (string \<Rightarrow> string \<Rightarrow> bool)
     \<Rightarrow> audit_state \<Rightarrow> string \<times> entry list \<Rightarrow> audit_state" where
  "audit_package SpecifierSet satisfies st item =
     (let pkg = fst item; entries = snd item;
          specs = sorted_set (filter (\<lambda>s. s \<noteq> []) (map (\<lambda>e. py_strip (e_spec e)) entries));
          markers = sorted_set (filter (\<lambda>s. s \<noteq> []) (map (\<lambda>e. py_strip (e_marker e)) entries))
      in if specs = [] then
           st\<lparr>compatible_requirements := compatible_requirements st @ [pkg]\<rparr>
         else
           (let intersect = specifiers_intersection SpecifierSet specs in
            if \<not> si_ok intersect then
              (let exacts = sorted_set (concat (map exact_versions specs));
                   pin_conflicts =
                     concat (map (\<lambda>ev.
                       map (\<lambda>s. ''exact pin '' @ ev @ '' not compatible with spec '' @ [CHR 0x27]
                                 @ s @ [CHR 0x27])
                         (filter (\<lambda>s. \<not> satisfies ev s) specs)) exacts);
                   rs = sorted_set ([si_reason intersect] @ pin_conflicts)
               in st\<lparr>conflicts := conflicts st @
                        [\<lparr>c_package = pkg, c_specs = specs, c_markers = markers, c_reasons = rs,
                          c_entries = entries\<rparr>],
                      incompatible_lines := incompatible_lines st @
                        [pkg @ '' :: '' @ join '' | '' specs @ '' :: '' @ join '' | '' rs]\<rparr>)
            else
              (let normalized = py_strip (si_normalized intersect);
                   unsup = filter (\<lambda>x. x \<noteq> []) (si_unsupported intersect)
               in if unsup \<noteq> [] then
                    st\<lparr>conflicts := conflicts st @
                         [\<lparr>c_package = pkg, c_specs = specs, c_markers = markers,
                           c_reasons = unsup, c_entries = entries\<rparr>],
                       incompatible_lines := incompatible_lines st @
                         [pkg @ '' :: '' @ join '' | '' specs @ '' :: '' @ join '' | '' unsup]\<rparr>
                  else
                    st\<lparr>compatible_requirements :=
                         compatible_requirements st @ [pkg @ normalized]\<rparr>)))"

text \<open>The loop over \<open>sorted(pkg_map.items())\<close>; the dictionary is the list of its items.\<close>

definition audit ::
  "(string \<Rightarrow> (string \<times> string) list option) \<Rightarrow> (string \<Rightarrow> string \<Rightarrow> bool)
     \<Rightarrow> (string \<times> entry list) list \<Rightarrow> audit_state" where
  "audit SpecifierSet satisfies pkg_map =
     foldl (audit_package SpecifierSet satisfies)
       \<lparr>conflicts = [], compatible_requirements = [], incompatible_lines = []\<rparr>
       (sort_key fst pkg_map)"

text \<open>The texts written to the two requirement files.\<close>

definition compatible_text :: "audit_state \<Rightarrow> string" where
  "compatible_text st = join [CHR 0x0A] (sorted_set (compatible_requirements st)) @ [CHR 0x0A]"

definition incompatible_text :: "audit_state \<Rightarrow> string" where
  "incompatible_text st =
     join [CHR 0x0A] (incompatible_lines st)
     @ (if incompatible_lines st \<noteq> [] then [CHR 0x0A] else [])"

lemma finish_lower_above_upper:
  assumes "lower st = Some l" "upper st = Some u" "v_lt u l"
  shows "\<not> si_ok (finish st)"
    and "exact st = None \<Longrightarrow>
         si_reason (finish st) = ''lower bound '' @ str_version l
                                   @ '' is greater than upper bound '' @ str_version u"
    and "exact st = Some e \<Longrightarrow>
         si_reason (finish st) \<in> {''exact pin '' @ str_version e @ '' is explicitly excluded'',
                                 ''exact pin '' @ str_version e @ '' is below lower bound'',
                                 ''exact pin '' @ str_version e @ '' is above upper bound''}"
  using assms
  by (auto simp: finish_def failed_with_def v_lt_def v_eq_def split: option.splits)

lemma scan_specs_cong:
  "(\<And>t. t \<in> set specs \<Longrightarrow> SS t = SS' t) \<Longrightarrow>
   scan_specs SS st specs = scan_specs SS' st specs"
  by (induction specs arbitrary: st) (auto split: option.splits sum.splits)

lemma specifiers_intersection_cong:
  "(\<And>t. t \<in> set specs \<Longrightarrow> SS t = SS' t) \<Longrightarrow>
   specifiers_intersection SS specs = specifiers_intersection SS' specs"
  by (simp add: specifiers_intersection_def scan_specs_cong [of specs SS SS'])

definition e3_a :: string where "e3_a = ''<0.47.0,>=0.40.0''"
definition e3_b :: string where "e3_b = ''>=0.49.1''"

definition e3_SS :: "bool \<Rightarrow> string \<Rightarrow> (string \<times> string) list option" where
  "e3_SS swapped t =
     (if t = e3_a then
        Some (if swapped then [(''>='', ''0.40.0''), (''<'', ''0.47.0'')]
              else [(''<'', ''0.47.0''), (''>='', ''0.40.0'')])
      else if t = e3_b then Some [(''>='', ''0.49.1'')]
      else None)"

definition e3_reason :: string where
  "e3_reason = ''lower bound 0.49.1 is greater than upper bound 0.47.0''"

lemma e3_intersection_eval:
  "specifiers_intersection (e3_SS False) [e3_a, e3_b] = failed_with e3_reason"
  "specifiers_intersection (e3_SS True) [e3_a, e3_b] = failed_with e3_reason"
  by code_simp+

lemma e3_intersection:
  assumes "SS e3_a = Some [(''<'', ''0.47.0''), (''>='', ''0.40.0'')]
           \<or> SS e3_a = Some [(''>='', ''0.40.0''), (''<'', ''0.47.0'')]"
      and "SS e3_b = Some [(''>='', ''0.49.1'')]"
  shows "specifiers_intersection SS [e3_a, e3_b] = failed_with e3_reason"
proof -
  have ne: "e3_a \<noteq> e3_b" by (simp add: e3_a_def e3_b_def)
  from assms(1) show ?thesis
  proof
    assume a: "SS e3_a = Some [(''<'', ''0.47.0''), (''>='', ''0.40.0'')]"
    have "specifiers_intersection SS [e3_a, e3_b] = specifiers_intersection (e3_SS False) [e3_a, e3_b]"
      by (rule specifiers_intersection_cong) (use a assms(2) ne in \<open>auto simp: e3_SS_def\<close>)
    then show ?thesis by (simp only: e3_intersection_eval)
  next
    assume a: "SS e3_a = Some [(''>='', ''0.40.0''), (''<'', ''0.47.0'')]"
    have "specifiers_intersection SS [e3_a, e3_b] = specifiers_intersection (e3_SS True) [e3_a, e3_b]"
      by (rule specifiers_intersection_cong) (use a assms(2) ne in \<open>auto simp: e3_SS_def\<close>)
    then show ?thesis by (simp only: e3_intersection_eval)
  qed
qed

lemma sorted_set_pair:
  assumes "set xs = {a, b}" "a < b"
  shows "sorted_set xs = [a, b]"
proof -
  have "sorted (sorted_set xs)" "distinct (sorted_set xs)" "set (sorted_set xs) = {a, b}"
    using assms(1) by (simp_all add: sorted_set_def)
  moreover have "sorted [a, b]" "distinct [a, b]" "set [a, b] = {a, b}"
    using assms(2) by auto
  ultimately show ?thesis by (metis sorted_distinct_set_unique)
qed

lemma e3_facts:
  "py_strip e3_a = e3_a" "py_strip e3_b = e3_b" "e3_a \<noteq> []" "e3_b \<noteq> []" "e3_a < e3_b"
  "exact_versions e3_a = []" "exact_versions e3_b = []"
  "sorted_set [e3_reason] = [e3_reason]" "sorted_set ([] :: string list) = []"
  by code_simp+

lemma e3_specs:
  assumes "set (map e_spec entries) = {e3_a, e3_b}"
  shows "sorted_set (filter (\<lambda>s. s \<noteq> []) (map (\<lambda>e. py_strip (e_spec e)) entries)) = [e3_a, e3_b]"
proof -
  have "\<And>e. e \<in> set entries \<Longrightarrow> e_spec e = e3_a \<or> e_spec e = e3_b"
    using assms by auto
  then have "\<And>e. e \<in> set entries \<Longrightarrow> py_strip (e_spec e) = e_spec e \<and> e_spec e \<noteq> []"
    using e3_facts by metis
  then have "filter (\<lambda>s. s \<noteq> []) (map (\<lambda>e. py_strip (e_spec e)) entries) = map e_spec entries"
    by (induction entries) auto
  then show ?thesis using sorted_set_pair [OF assms e3_facts(5)] by simp
qed

lemma e3_line: "''starlette'' @ '' :: '' @ join '' | '' [e3_a, e3_b] @ '' :: '' @ join '' | '' [e3_reason]
   = ''starlette :: <0.47.0,>=0.40.0 | >=0.49.1 :: lower bound 0.49.1 is greater than upper bound 0.47.0''"
  by code_simp

lemma e3_audit_package:
  assumes "SS e3_a = Some [(''<'', ''0.47.0''), (''>='', ''0.40.0'')]
           \<or> SS e3_a = Some [(''>='', ''0.40.0''), (''<'', ''0.47.0'')]"
      and "SS e3_b = Some [(''>='', ''0.49.1'')]"
      and "set (map e_spec entries) = {e3_a, e3_b}"
  shows "compatible_requirements (audit_package SS sat st (''starlette'', entries)) = compatible_requirements st"
    and "incompatible_lines (audit_package SS sat st (''starlette'', entries)) = incompatible_lines st @
       [''starlette :: <0.47.0,>=0.40.0 | >=0.49.1 :: lower bound 0.49.1 is greater than upper bound 0.47.0'']"
    and "map c_package (conflicts (audit_package SS sat st (''starlette'', entries))) = map c_package (conflicts st) @ [''starlette'']"
  unfolding audit_package_def Let_def fst_conv snd_conv e3_specs [OF assms(3)]
    e3_intersection [OF assms(1,2)]
  by (simp_all add: failed_with_def e3_facts e3_line [simplified])


lemma audit_package_conflict:
  assumes "\<not> si_ok (specifiers_intersection SS
             (sorted_set (filter (\<lambda>s. s \<noteq> []) (map (\<lambda>e. py_strip (e_spec e)) entries))))"
      and "sorted_set (filter (\<lambda>s. s \<noteq> []) (map (\<lambda>e. py_strip (e_spec e)) entries)) \<noteq> []"
  shows "compatible_requirements (audit_package SS sat st (pkg, entries)) = compatible_requirements st"
    and "map c_package (conflicts (audit_package SS sat st (pkg, entries)))
           = map c_package (conflicts st) @ [pkg]"
  using assms by (simp_all add: audit_package_def Let_def)

lemma scan_specs_Nil_lower: "scan_specs SS init_bounds [] = Inr st \<Longrightarrow> lower st = None"
  by (auto simp: init_bounds_def)

lemma audit_singleton: "audit SS sat [item] = audit_package SS sat
     \<lparr>conflicts = [], compatible_requirements = [], incompatible_lines = []\<rparr> item"
  by (simp add: audit_def)

text \<open>
  C6: when the loops of \<open>specifiers_intersection\<close> leave a lower bound above the upper
  bound, the intersection is not ok; its reason names the two bounds when no version is
  pinned, and is one of the reasons of an exact pin when one is; and the audit records
  the package as a conflict and adds nothing to the compatible requirements. For files
  that declare \<open>starlette<0.47.0,>=0.40.0\<close> and \<open>starlette>=0.49.1\<close>, in whichever order
  the specifiers of the first are iterated, the audit appends the line of \<open>starlette\<close>
  with the reason \<open>lower bound 0.49.1 is greater than upper bound 0.47.0\<close>, adds no
  compatible requirement, and the compatible file of an audit of these files alone is
  empty.
\<close>

theorem reconciler_lower_above_upper:
  "(scan_specs SS init_bounds
        (sorted_set (filter (\<lambda>s. s \<noteq> []) (map (\<lambda>e. py_strip (e_spec e)) entries))) = Inr b
      \<and> lower b = Some l \<and> upper b = Some u \<and> v_lt u l
    \<longrightarrow> \<not> si_ok (specifiers_intersection SS
               (sorted_set (filter (\<lambda>s. s \<noteq> []) (map (\<lambda>e. py_strip (e_spec e)) entries))))
      \<and> (exact b = None \<longrightarrow>
           si_reason (specifiers_intersection SS
               (sorted_set (filter (\<lambda>s. s \<noteq> []) (map (\<lambda>e. py_strip (e_spec e)) entries))))
             = ''lower bound '' @ str_version l @ '' is greater than upper bound '' @ str_version u)
      \<and> (exact b = Some pin \<longrightarrow>
           si_reason (specifiers_intersection SS
               (sorted_set (filter (\<lambda>s. s \<noteq> []) (map (\<lambda>e. py_strip (e_spec e)) entries))))
             \<in> {''exact pin '' @ str_version pin @ '' is explicitly excluded'',
                 ''exact pin '' @ str_version pin @ '' is below lower bound'',
                 ''exact pin '' @ str_version pin @ '' is above upper bound''})
      \<and> compatible_requirements (audit_package SS sat st (pkg, entries))
          = compatible_requirements st
      \<and> map c_package (conflicts (audit_package SS sat st (pkg, entries)))
          = map c_package (conflicts st) @ [pkg])
   \<and> ((SS ''<0.47.0,>=0.40.0'' = Some [(''<'', ''0.47.0''), (''>='', ''0.40.0'')]
         \<or> SS ''<0.47.0,>=0.40.0'' = Some [(''>='', ''0.40.0''), (''<'', ''0.47.0'')])
      \<and> SS ''>=0.49.1'' = Some [(''>='', ''0.49.1'')]
      \<and> set (map e_spec entries) = {''<0.47.0,>=0.40.0'', ''>=0.49.1''}
    \<longrightarrow> compatible_requirements (audit_package SS sat st (''starlette'', entries))
          = compatible_requirements st
      \<and> incompatible_lines (audit_package SS sat st (''starlette'', entries))
          = incompatible_lines st @
            [''starlette :: <0.47.0,>=0.40.0 | >=0.49.1 :: lower bound 0.49.1 is greater than upper bound 0.47.0'']
      \<and> map c_package (conflicts (audit_package SS sat st (''starlette'', entries)))
          = map c_package (conflicts st) @ [''starlette'']
      \<and> compatible_text (audit SS sat [(''starlette'', entries)]) = [CHR 0x0A]
      \<and> incompatible_text (audit SS sat [(''starlette'', entries)])
          = ''starlette :: <0.47.0,>=0.40.0 | >=0.49.1 :: lower bound 0.49.1 is greater than upper bound 0.47.0''
            @ [CHR 0x0A])"
proof (intro conjI impI)
  let ?specs = "sorted_set (filter (\<lambda>s. s \<noteq> []) (map (\<lambda>e. py_strip (e_spec e)) entries))"
  assume h: "scan_specs SS init_bounds ?specs = Inr b \<and> lower b = Some l \<and> upper b = Some u
             \<and> v_lt u l"
  then have si: "specifiers_intersection SS ?specs = finish b"
    by (simp add: specifiers_intersection_def)
  from h have ne: "?specs \<noteq> []" using scan_specs_Nil_lower [of SS b] by auto
  from h have lb: "lower b = Some l" and ub: "upper b = Some u" and lt: "v_lt u l" by simp_all
  show nok: "\<not> si_ok (specifiers_intersection SS ?specs)"
    unfolding si by (rule finish_lower_above_upper(1) [OF lb ub lt])
  show "si_reason (specifiers_intersection SS ?specs)
          = ''lower bound '' @ str_version l @ '' is greater than upper bound '' @ str_version u"
    if "exact b = None"
    unfolding si by (rule finish_lower_above_upper(2) [OF lb ub lt that])
  show "si_reason (specifiers_intersection SS ?specs)
          \<in> {''exact pin '' @ str_version pin @ '' is explicitly excluded'',
              ''exact pin '' @ str_version pin @ '' is below lower bound'',
              ''exact pin '' @ str_version pin @ '' is above upper bound''}"
    if "exact b = Some pin"
    unfolding si by (rule finish_lower_above_upper(3) [OF lb ub lt that])
  show "compatible_requirements (audit_package SS sat st (pkg, entries)) = compatible_requirements st"
    by (rule audit_package_conflict(1) [OF nok ne])
  show "map c_package (conflicts (audit_package SS sat st (pkg, entries)))
          = map c_package (conflicts st) @ [pkg]"
    by (rule audit_package_conflict(2) [OF nok ne])
next
  assume h: "(SS ''<0.47.0,>=0.40.0'' = Some [(''<'', ''0.47.0''), (''>='', ''0.40.0'')]
         \<or> SS ''<0.47.0,>=0.40.0'' = Some [(''>='', ''0.40.0''), (''<'', ''0.47.0'')])
      \<and> SS ''>=0.49.1'' = Some [(''>='', ''0.49.1'')]
      \<and> set (map e_spec entries) = {''<0.47.0,>=0.40.0'', ''>=0.49.1''}"
  then have a: "SS e3_a = Some [(''<'', ''0.47.0''), (''>='', ''0.40.0'')]
           \<or> SS e3_a = Some [(''>='', ''0.40.0''), (''<'', ''0.47.0'')]"
    and b: "SS e3_b = Some [(''>='', ''0.49.1'')]"
    and c: "set (map e_spec entries) = {e3_a, e3_b}"
    by (simp_all only: e3_a_def e3_b_def)
  note p = e3_audit_package [OF a b c]
  show "compatible_requirements (audit_package SS sat st (''starlette'', entries))
          = compatible_requirements st"
    by (rule p(1))
  show "incompatible_lines (audit_package SS sat st (''starlette'', entries))
          = incompatible_lines st @
            [''starlette :: <0.47.0,>=0.40.0 | >=0.49.1 :: lower bound 0.49.1 is greater than upper bound 0.47.0'']"
    by (rule p(2))
  show "map c_package (conflicts (audit_package SS sat st (''starlette'', entries)))
          = map c_package (conflicts st) @ [''starlette'']"
    by (rule p(3))
  show "compatible_text (audit SS sat [(''starlette'', entries)]) = [CHR 0x0A]"
    by (simp add: audit_singleton compatible_text_def p(1) e3_facts)
  show "incompatible_text (audit SS sat [(''starlette'', entries)])
          = ''starlette :: <0.47.0,>=0.40.0 | >=0.49.1 :: lower bound 0.49.1 is greater than upper bound 0.47.0''
            @ [CHR 0x0A]"
    by (simp add: audit_singleton incompatible_text_def p(2))
qed

text \<open>The files of E3, and the state in which the loops leave their bounds.\<close>

definition e3_entries :: "entry list" where
  "e3_entries =
     [\<lparr>e_node = ''sse-node'', e_file = ''custom_nodes/sse-node/requirements.txt'',
       e_spec = ''>=0.49.1'', e_marker = [], e_raw = ''starlette>=0.49.1''\<rparr>,
      \<lparr>e_node = ''api-node'', e_file = ''custom_nodes/api-node/requirements.txt'',
       e_spec = ''<0.47.0,>=0.40.0'', e_marker = [], e_raw = ''starlette<0.47.0,>=0.40.0''\<rparr>]"

definition e3_bounds :: bounds where
  "e3_bounds =
     \<lparr>lower = Some (final_release [0, 49, 1]), lower_inclusive = True,
      upper = Some (final_release [0, 47, 0]), upper_inclusive = False, exact = None,
      not_equals = [], unsupported = []\<rparr>"

definition empty_audit :: audit_state where
  "empty_audit = \<lparr>conflicts = [], compatible_requirements = [], incompatible_lines = []\<rparr>"

text \<open>
  Files that declare \<open>torch<1.0\<close> and \<open>torch>=2.0rc1\<close>, a release candidate, and files that
  also pin \<open>torch==1.5rc1\<close> next to \<open>torch>=2.0\<close>; the states in which the loops leave
  their bounds.
\<close>

definition rc_SS :: "string \<Rightarrow> (string \<times> string) list option" where
  "rc_SS t =
     (if t = ''<1.0'' then Some [(''<'', ''1.0'')]
      else if t = ''>=2.0rc1'' then Some [(''>='', ''2.0rc1'')]
      else if t = ''==1.5rc1'' then Some [(''=='', ''1.5rc1'')]
      else if t = ''>=2.0'' then Some [(''>='', ''2.0'')]
      else None)"

definition rc_entries :: "entry list" where
  "rc_entries =
     [\<lparr>e_node = ''new-node'', e_file = ''custom_nodes/new-node/requirements.txt'',
       e_spec = ''>=2.0rc1'', e_marker = [], e_raw = ''torch>=2.0rc1''\<rparr>,
      \<lparr>e_node = ''old-node'', e_file = ''custom_nodes/old-node/requirements.txt'',
       e_spec = ''<1.0'', e_marker = [], e_raw = ''torch<1.0''\<rparr>]"

definition rc_bounds :: bounds where
  "rc_bounds =
     \<lparr>lower = Some ((final_release [2, 0])\<lparr>v_pre := Some (''rc'', 1)\<rparr>), lower_inclusive = True,
      upper = Some (final_release [1, 0]), upper_inclusive = False, exact = None,
      not_equals = [], unsupported = []\<rparr>"

definition pinned_entries :: "entry list" where
  "pinned_entries =
     [\<lparr>e_node = ''new-node'', e_file = ''custom_nodes/new-node/requirements.txt'',
       e_spec = ''>=2.0'', e_marker = [], e_raw = ''torch>=2.0''\<rparr>,
      \<lparr>e_node = ''old-node'', e_file = ''custom_nodes/old-node/requirements.txt'',
       e_spec = ''<1.0'', e_marker = [], e_raw = ''torch<1.0''\<rparr>,
      \<lparr>e_node = ''pin-node'', e_file = ''custom_nodes/pin-node/requirements.txt'',
       e_spec = ''==1.5rc1'', e_marker = [], e_raw = ''torch==1.5rc1''\<rparr>]"

definition pinned_bounds :: bounds where
  "pinned_bounds =
     \<lparr>lower = Some (final_release [2, 0]), lower_inclusive = True,
      upper = Some (final_release [1, 0]), upper_inclusive = False,
      exact = Some ((final_release [1, 5])\<lparr>v_pre := Some (''rc'', 1)\<rparr>),
      not_equals = [], unsupported = []\<rparr>"

lemma e3_scan:
  "scan_specs (e3_SS False) init_bounds
        (sorted_set (filter (\<lambda>s. s \<noteq> []) (map (\<lambda>e. py_strip (e_spec e)) e3_entries)))
       = Inr e3_bounds"
  "v_lt (final_release [0, 47, 0]) (final_release [0, 49, 1])"
  by code_simp+

lemma rc_scan:
  "scan_specs rc_SS init_bounds
        (sorted_set (filter (\<lambda>s. s \<noteq> []) (map (\<lambda>e. py_strip (e_spec e)) rc_entries)))
       = Inr rc_bounds"
  "v_lt (final_release [1, 0]) ((final_release [2, 0])\<lparr>v_pre := Some (''rc'', 1)\<rparr>)"
  "''lower bound '' @ str_version ((final_release [2, 0])\<lparr>v_pre := Some (''rc'', 1)\<rparr>)
     @ '' is greater than upper bound '' @ str_version (final_release [1, 0])
   = ''lower bound 2.0rc1 is greater than upper bound 1.0''"
  by code_simp+

lemma pinned_scan:
  "scan_specs rc_SS init_bounds
        (sorted_set (filter (\<lambda>s. s \<noteq> []) (map (\<lambda>e. py_strip (e_spec e)) pinned_entries)))
       = Inr pinned_bounds"
  "v_lt (final_release [1, 0]) (final_release [2, 0])"
  "si_reason (specifiers_intersection rc_SS
        (sorted_set (filter (\<lambda>s. s \<noteq> []) (map (\<lambda>e. py_strip (e_spec e)) pinned_entries))))
     = ''exact pin 1.5rc1 is below lower bound''"
  by code_simp+

theorem reconciler_lower_above_upper_witness:
  "e3_SS False ''<0.47.0,>=0.40.0'' = Some [(''<'', ''0.47.0''), (''>='', ''0.40.0'')]
   \<and> e3_SS False ''>=0.49.1'' = Some [(''>='', ''0.49.1'')]
   \<and> set (map e_spec e3_entries) = {''<0.47.0,>=0.40.0'', ''>=0.49.1''}
   \<and> incompatible_lines (audit_package (e3_SS False) (\<lambda>v s. True) empty_audit
          (''starlette'', e3_entries))
       = [''starlette :: <0.47.0,>=0.40.0 | >=0.49.1 :: lower bound 0.49.1 is greater than upper bound 0.47.0'']
   \<and> compatible_requirements (audit_package (e3_SS False) (\<lambda>v s. True) empty_audit
          (''starlette'', e3_entries)) = []
   \<and> scan_specs (e3_SS False) init_bounds
        (sorted_set (filter (\<lambda>s. s \<noteq> []) (map (\<lambda>e. py_strip (e_spec e)) e3_entries)))
       = Inr e3_bounds
   \<and> lower e3_bounds = Some (final_release [0, 49, 1])
   \<and> upper e3_bounds = Some (final_release [0, 47, 0])
   \<and> v_lt (final_release [0, 47, 0]) (final_release [0, 49, 1])
   \<and> \<not> si_ok (specifiers_intersection (e3_SS False)
        (sorted_set (filter (\<lambda>s. s \<noteq> []) (map (\<lambda>e. py_strip (e_spec e)) e3_entries))))
   \<and> scan_specs rc_SS init_bounds
        (sorted_set (filter (\<lambda>s. s \<noteq> []) (map (\<lambda>e. py_strip (e_spec e)) rc_entries)))
       = Inr rc_bounds
   \<and> exact rc_bounds = None
   \<and> si_reason (specifiers_intersection rc_SS
        (sorted_set (filter (\<lambda>s. s \<noteq> []) (map (\<lambda>e. py_strip (e_spec e)) rc_entries))))
       = ''lower bound 2.0rc1 is greater than upper bound 1.0''
   \<and> compatible_requirements (audit_package rc_SS (\<lambda>v s. True) empty_audit
          (''torch'', rc_entries)) = []
   \<and> scan_specs rc_SS init_bounds
        (sorted_set (filter (\<lambda>s. s \<noteq> []) (map (\<lambda>e. py_strip (e_spec e)) pinned_entries)))
       = Inr pinned_bounds
   \<and> \<not> si_ok (specifiers_intersection rc_SS
        (sorted_set (filter (\<lambda>s. s \<noteq> []) (map (\<lambda>e. py_strip (e_spec e)) pinned_entries))))
   \<and> si_reason (specifiers_intersection rc_SS
        (sorted_set (filter (\<lambda>s. s \<noteq> []) (map (\<lambda>e. py_strip (e_spec e)) pinned_entries))))
       = ''exact pin 1.5rc1 is below lower bound''"
proof -
  have h1: "e3_SS False ''<0.47.0,>=0.40.0'' = Some [(''<'', ''0.47.0''), (''>='', ''0.40.0'')]"
    by code_simp
  have h2: "e3_SS False ''>=0.49.1'' = Some [(''>='', ''0.49.1'')]" by code_simp
  have h3: "set (map e_spec e3_entries) = {''<0.47.0,>=0.40.0'', ''>=0.49.1''}"
    by (auto simp: e3_entries_def)
  note g1 = e3_scan(1)
  have g2: "lower e3_bounds = Some (final_release [0, 49, 1])"
    "upper e3_bounds = Some (final_release [0, 47, 0])"
    by (simp_all add: e3_bounds_def)
  note g3 = e3_scan(2)
  note t = reconciler_lower_above_upper [where SS = "e3_SS False" and entries = e3_entries
      and b = e3_bounds and l = "final_release [0, 49, 1]" and u = "final_release [0, 47, 0]"
      and sat = "\<lambda>v s. True" and st = empty_audit and pkg = "''starlette''"]
  have a1: "\<not> si_ok (specifiers_intersection (e3_SS False)
        (sorted_set (filter (\<lambda>s. s \<noteq> []) (map (\<lambda>e. py_strip (e_spec e)) e3_entries))))"
    using t [THEN conjunct1] g1 g2 g3 by blast
  have a2: "incompatible_lines (audit_package (e3_SS False) (\<lambda>v s. True) empty_audit
          (''starlette'', e3_entries))
       = incompatible_lines empty_audit @ [''starlette :: <0.47.0,>=0.40.0 | >=0.49.1 :: lower bound 0.49.1 is greater than upper bound 0.47.0'']"
    using t [THEN conjunct2] h1 h2 h3 by blast
  have a3: "compatible_requirements (audit_package (e3_SS False) (\<lambda>v s. True) empty_audit
          (''starlette'', e3_entries)) = compatible_requirements empty_audit"
    using t [THEN conjunct2] h1 h2 h3 by blast
  have e: "incompatible_lines empty_audit = []" "compatible_requirements empty_audit = []"
    by (simp_all add: empty_audit_def)
  have r2: "lower rc_bounds = Some ((final_release [2, 0])\<lparr>v_pre := Some (''rc'', 1)\<rparr>)"
    "upper rc_bounds = Some (final_release [1, 0])" "exact rc_bounds = None"
    by (simp_all add: rc_bounds_def)
  note tr = reconciler_lower_above_upper [where SS = rc_SS and entries = rc_entries
      and b = rc_bounds and l = "(final_release [2, 0])\<lparr>v_pre := Some (''rc'', 1)\<rparr>"
      and u = "final_release [1, 0]" and sat = "\<lambda>v s. True" and st = empty_audit
      and pkg = "''torch''", THEN conjunct1]
  have b1: "si_reason (specifiers_intersection rc_SS
        (sorted_set (filter (\<lambda>s. s \<noteq> []) (map (\<lambda>e. py_strip (e_spec e)) rc_entries))))
       = ''lower bound '' @ str_version ((final_release [2, 0])\<lparr>v_pre := Some (''rc'', 1)\<rparr>)
         @ '' is greater than upper bound '' @ str_version (final_release [1, 0])"
    using tr rc_scan(1,2) r2 by blast
  have b2: "compatible_requirements (audit_package rc_SS (\<lambda>v s. True) empty_audit
          (''torch'', rc_entries)) = compatible_requirements empty_audit"
    using tr rc_scan(1,2) r2 by blast
  have p2: "lower pinned_bounds = Some (final_release [2, 0])"
    "upper pinned_bounds = Some (final_release [1, 0])"
    by (simp_all add: pinned_bounds_def)
  note tp = reconciler_lower_above_upper [where SS = rc_SS and entries = pinned_entries
      and b = pinned_bounds and l = "final_release [2, 0]" and u = "final_release [1, 0]",
      THEN conjunct1]
  have c1: "\<not> si_ok (specifiers_intersection rc_SS
        (sorted_set (filter (\<lambda>s. s \<noteq> []) (map (\<lambda>e. py_strip (e_spec e)) pinned_entries))))"
    using tp pinned_scan(1,2) p2 by blast
  show ?thesis
    using h1 h2 h3 g1 g2 g3 a1 a2 a3 e rc_scan(1) r2(3) b1 [unfolded rc_scan(3)] b2
      pinned_scan(1,3) c1
    by simp
qed

text \<open>
  The branch for \<open>~=\<close> does to the state what \<open>>=\<close> of the version followed by \<open><\<close> of
  its next boundary do, unless the upper bound it finds is inclusive and equal to that
  boundary.
\<close>

lemma tilde_as_conjunction:
  assumes "Version vt = Some low" "compatible_upper_for vt = Some up" "Version ut = Some up"
      and "\<not> (\<exists>u. upper st = Some u \<and> v_eq up u \<and> upper_inclusive st)"
  shows "scan_sp t st (''~='', vt) = scan_set t st [(''>='', vt), (''<'', ut)]"
  using assms
  by (auto simp: scan_sp_def Let_def split: option.splits)

text \<open>Specifier sets for two files that declare \<open>scipy<=1.16\<close> and \<open>scipy~=1.15.3\<close>.\<close>

definition tilde_SS :: "string \<Rightarrow> (string \<times> string) list option" where
  "tilde_SS t =
     (if t = ''<=1.16'' then Some [(''<='', ''1.16'')]
      else if t = ''~=1.15.3'' then Some [(''~='', ''1.15.3'')]
      else if t = ''<1.16,>=1.15.3'' then Some [(''<'', ''1.16''), (''>='', ''1.15.3'')]
      else None)"

definition tilde_entries :: "entry list" where
  "tilde_entries =
     [\<lparr>e_node = ''depth-node'', e_file = ''custom_nodes/depth-node/requirements.txt'',
       e_spec = ''~=1.15.3'', e_marker = [], e_raw = ''scipy~=1.15.3''\<rparr>,
      \<lparr>e_node = ''plot-node'', e_file = ''custom_nodes/plot-node/requirements.txt'',
       e_spec = ''<=1.16'', e_marker = [], e_raw = ''scipy<=1.16''\<rparr>]"

text \<open>
  C7, on the code: the next boundary of \<open>1.15.3\<close> is \<open>1.16\<close> and that of \<open>5\<close> is \<open>6\<close>, and
  \<open>~=1.15.3\<close> alone gives \<open>>=1.15.3,<1.16\<close>. But with \<open><=1.16\<close> before it, \<open>~=1.15.3\<close>
  leaves the upper bound inclusive, where \<open>>=1.15.3\<close> and \<open><1.16\<close> in its place make it
  exclusive: the audit writes \<open>scipy>=1.15.3,<=1.16\<close>, which admits the version \<open>1.16\<close>.
\<close>

theorem tilde_after_inclusive_upper:
  "compatible_upper_for ''1.15.3'' = Some (final_release [1, 16])
   \<and> compatible_upper_for ''5'' = Some (final_release [6])
   \<and> si_normalized (specifiers_intersection tilde_SS [''~=1.15.3'']) = ''>=1.15.3,<1.16''
   \<and> si_normalized (specifiers_intersection tilde_SS [''<=1.16'', ''<1.16,>=1.15.3''])
       = ''>=1.15.3,<1.16''
   \<and> si_normalized (specifiers_intersection tilde_SS [''<=1.16'', ''~=1.15.3''])
       = ''>=1.15.3,<=1.16''
   \<and> compatible_requirements (audit tilde_SS (\<lambda>v s. True) [(''scipy'', tilde_entries)])
       = [''scipy>=1.15.3,<=1.16'']"
  by code_simp

section \<open>AutoHeal\<close>















subsection \<open>The loop of the compatibility-set route\<close>







subsection \<open>The loop of the fix route\<close>
















subsection \<open>Rounds, checks and the keys seen\<close>




lemma not_check_install: "\<not> starts_with (''python -m pip install '' @ spec) ''python -m pip check (''"
  by simp















































end
